theory Spec2Isabelle
  imports Main
begin

section \<open>Python values\<close>

text \<open>
  A Python \<open>str\<close> is a sequence of Unicode code points, and \<open>len\<close> counts code
  points. A string is therefore a list of code points, each a natural number; \<open>ustr\<close>
  embeds an ASCII literal.
\<close>

type_synonym pystr = "nat list"

definition ustr :: "string \<Rightarrow> pystr" where
  "ustr s = map of_char s"

text \<open>
  Values of type \<open>Any\<close>: what a JSON document or a transport response can hold.
  A \<open>dict\<close> keeps its insertion order, so it is an association list; its keys are
  strings, as in \<open>Dict[str, Any]\<close>. A float is kept only as far as the program looks
  at it: whether it is zero.
\<close>

datatype pyval =
    PNone
  | PBool bool
  | PInt int
  | PFloat bool
  | PStr pystr
  | PList "pyval list"
  | PDict "(pystr \<times> pyval) list"

type_synonym pydict = "(pystr \<times> pyval) list"

text \<open>
  Exceptions. The interpreter raises \<open>AttributeError\<close>, \<open>TypeError\<close> and
  \<open>KeyError\<close> itself; \<open>ParamValidationError\<close> comes from the transport's
  client library with its message; \<open>LibraryError\<close> stands for every other
  exception a library call raises (a transport failure, a timeout, a JSON decoding
  error), with its message.
\<close>

datatype exn =
    AttributeError
  | TypeError
  | KeyError pystr
  | ParamValidationError pystr
  | LibraryError pystr

text \<open>Truthiness, as \<open>if v\<close> and \<open>v or d\<close> test it.\<close>

fun truthy :: "pyval \<Rightarrow> bool" where
  "truthy PNone = False"
| "truthy (PBool b) = b"
| "truthy (PInt i) = (i \<noteq> 0)"
| "truthy (PFloat nonzero) = nonzero"
| "truthy (PStr s) = (s \<noteq> [])"
| "truthy (PList xs) = (xs \<noteq> [])"
| "truthy (PDict d) = (d \<noteq> [])"

text \<open>\<open>d.get(k)\<close> on a dict: the value, or \<open>None\<close>.\<close>

definition dict_get :: "pydict \<Rightarrow> pystr \<Rightarrow> pyval" where
  "dict_get d k = (case map_of d k of Some v \<Rightarrow> v | None \<Rightarrow> PNone)"

text \<open>\<open>d.get(k, dflt)\<close> on a dict.\<close>

definition dict_get_default :: "pydict \<Rightarrow> pystr \<Rightarrow> pyval \<Rightarrow> pyval" where
  "dict_get_default d k dflt = (case map_of d k of Some v \<Rightarrow> v | None \<Rightarrow> dflt)"

text \<open>
  \<open>v.get(k)\<close> and \<open>v.get(k, dflt)\<close> on a value of type \<open>Any\<close>: only a dict has
  the method; on anything else the attribute lookup raises.
\<close>

fun py_get :: "pyval \<Rightarrow> pystr \<Rightarrow> exn + pyval" where
  "py_get (PDict d) k = Inr (dict_get d k)"
| "py_get _ k = Inl AttributeError"

fun py_get_default :: "pyval \<Rightarrow> pystr \<Rightarrow> pyval \<Rightarrow> exn + pyval" where
  "py_get_default (PDict d) k dflt = Inr (dict_get_default d k dflt)"
| "py_get_default _ k dflt = Inl AttributeError"

text \<open>
  \<open>v[k]\<close> with a string key on a value of type \<open>Any\<close>: a dict gives the value or
  raises \<open>KeyError\<close>; a string or a list takes integer indices only, and nothing else
  can be subscripted.
\<close>

fun py_getitem :: "pyval \<Rightarrow> pystr \<Rightarrow> exn + pyval" where
  "py_getitem (PDict d) k = (case map_of d k of Some v \<Rightarrow> Inr v | None \<Rightarrow> Inl (KeyError k))"
| "py_getitem _ k = Inl TypeError"

text \<open>Whether \<open>needle\<close> occurs in \<open>hay\<close> as a contiguous run: \<open>needle in hay\<close> on strings.\<close>

fun str_contains :: "pystr \<Rightarrow> pystr \<Rightarrow> bool" where
  "str_contains needle [] = (needle = [])"
| "str_contains needle (c # cs) =
     (take (length needle) (c # cs) = needle \<or> str_contains needle cs)"

text \<open>
  \<open>k in v\<close> with a string \<open>k\<close> on a value of type \<open>Any\<close>: a key of a dict, an
  element of a list, a substring of a string; \<open>TypeError\<close> on anything else.
\<close>

fun py_contains :: "pystr \<Rightarrow> pyval \<Rightarrow> exn + bool" where
  "py_contains k (PDict d) = Inr (k \<in> set (map fst d))"
| "py_contains k (PList xs) = Inr (PStr k \<in> set xs)"
| "py_contains k (PStr s) = Inr (str_contains k s)"
| "py_contains k _ = Inl TypeError"

text \<open>
  \<open>for x in v\<close> on a value of type \<open>Any\<close>: the elements of a list, the keys of a
  dict, the characters of a string; \<open>TypeError\<close> on anything else.
\<close>

fun py_iter :: "pyval \<Rightarrow> exn + pyval list" where
  "py_iter (PList xs) = Inr xs"
| "py_iter (PDict d) = Inr (map (\<lambda>(k, v). PStr k) d)"
| "py_iter (PStr s) = Inr (map (\<lambda>c. PStr [c]) s)"
| "py_iter _ = Inl TypeError"

text \<open>\<open>d[k] = v\<close> and \<open>d.pop(k, None)\<close> on a dict.\<close>

fun dict_set :: "pydict \<Rightarrow> pystr \<Rightarrow> pyval \<Rightarrow> pydict" where
  "dict_set [] k v = [(k, v)]"
| "dict_set ((k', v') # d) k v = (if k' = k then (k, v) # d else (k', v') # dict_set d k v)"

definition dict_pop :: "pydict \<Rightarrow> pystr \<Rightarrow> pydict" where
  "dict_pop d k = filter (\<lambda>(k', v). k' \<noteq> k) d"

text \<open>
  \<open>str.isspace\<close> on one character, which is what \<open>strip\<close> and \<open>rstrip\<close> remove
  when called without an argument.
\<close>

definition py_isspace :: "nat \<Rightarrow> bool" where
  "py_isspace c =
     ((9 \<le> c \<and> c \<le> 13) \<or> (28 \<le> c \<and> c \<le> 32) \<or> c = 133 \<or> c = 160 \<or> c = 5760 \<or>
      (8192 \<le> c \<and> c \<le> 8202) \<or> c = 8232 \<or> c = 8233 \<or> c = 8239 \<or> c = 8287 \<or> c = 12288)"

definition py_rstrip :: "pystr \<Rightarrow> pystr" where
  "py_rstrip s = rev (dropWhile py_isspace (rev s))"

definition py_strip :: "pystr \<Rightarrow> pystr" where
  "py_strip s = dropWhile py_isspace (py_rstrip s)"

text \<open>\<open>sep.join(xs)\<close> on strings, and on values: every element has to be a string.\<close>

fun str_join :: "pystr \<Rightarrow> pystr list \<Rightarrow> pystr" where
  "str_join sep [] = []"
| "str_join sep [x] = x"
| "str_join sep (x # y # ys) = x @ sep @ str_join sep (y # ys)"

fun the_strs :: "pyval list \<Rightarrow> exn + pystr list" where
  "the_strs [] = Inr []"
| "the_strs (PStr s # vs) = (case the_strs vs of Inl e \<Rightarrow> Inl e | Inr ss \<Rightarrow> Inr (s # ss))"
| "the_strs (_ # vs) = Inl TypeError"

definition py_join :: "pystr \<Rightarrow> pyval list \<Rightarrow> exn + pystr" where
  "py_join sep vs = (case the_strs vs of Inl e \<Rightarrow> Inl e | Inr ss \<Rightarrow> Inr (str_join sep ss))"

text \<open>\<open>s.replace(old, new)\<close> where \<open>old\<close> is a single character.\<close>

definition str_replace1 :: "nat \<Rightarrow> pystr \<Rightarrow> pystr \<Rightarrow> pystr" where
  "str_replace1 old new s = concat (map (\<lambda>c. if c = old then new else [c]) s)"

text \<open>
  \<open>s.find(c)\<close> and \<open>s.rfind(c)\<close> for a single character: the first and the last
  index, \<open>-1\<close> when there is none; and the slice \<open>s[i:j]\<close> for \<open>0 \<le> i\<close>.
\<close>

definition str_find :: "nat \<Rightarrow> pystr \<Rightarrow> int" where
  "str_find c s = (if c \<in> set s then int (length (takeWhile (\<lambda>x. x \<noteq> c) s)) else - 1)"

definition str_rfind :: "nat \<Rightarrow> pystr \<Rightarrow> int" where
  "str_rfind c s =
     (if c \<in> set s then int (length s) - 1 - int (length (takeWhile (\<lambda>x. x \<noteq> c) (rev s)))
      else - 1)"

definition str_slice :: "pystr \<Rightarrow> int \<Rightarrow> int \<Rightarrow> pystr" where
  "str_slice s i j = take (nat (j - i)) (drop (nat i) s)"

text \<open>The decimal digits of a number, as an f-string prints a count.\<close>

fun str_of_nat :: "nat \<Rightarrow> pystr" where
  "str_of_nat n = (if n < 10 then [48 + n] else str_of_nat (n div 10) @ [48 + n mod 10])"

declare str_of_nat.simps [simp del]

text \<open>
  \<open>str(e)\<close> of an exception. A library's exception carries its message, and a
  \<open>KeyError\<close> prints the key in quotes. The wording of the interpreter's own messages
  is not the program's; the class name stands in its place.
\<close>

fun exn_str :: "exn \<Rightarrow> pystr" where
  "exn_str AttributeError = ustr ''AttributeError''"
| "exn_str TypeError = ustr ''TypeError''"
| "exn_str (KeyError k) = [39] @ k @ [39]"
| "exn_str (ParamValidationError msg) = msg"
| "exn_str (LibraryError msg) = msg"

section \<open>Tool-call capture\<close>

text \<open>
  \<^verbatim>\<open>
  class _ToolCapture:
      def __init__(self):
          self.actions: List[Dict[str, Any]] = []
      def absorb(self, part: Dict[str, Any]):
          tu = part.get("toolUse")
          if tu and isinstance(tu.get("input"), dict):
              acts = tu["input"].get("actions")
              if isinstance(acts, list):
                  self.actions = acts
  \<close>
  The object is its one field. The parts come out of a transport response unchecked,
  so a part is a value of type \<open>Any\<close>. \<open>absorb\<close> returns how the call ended
  together with the object after the call: an exception leaves the field as it was,
  since the only assignment is the last statement.
\<close>

record ToolCapture =
  capture_actions :: "pyval list"

definition ToolCapture_init :: ToolCapture where
  "ToolCapture_init = \<lparr>capture_actions = []\<rparr>"

definition absorb :: "pyval \<Rightarrow> ToolCapture \<Rightarrow> (exn + unit) \<times> ToolCapture" where
  "absorb part self =
     (case py_get part (ustr ''toolUse'') of
        Inl e \<Rightarrow> (Inl e, self)
      | Inr tu \<Rightarrow>
          if \<not> truthy tu then (Inr (), self)
          else (case py_get tu (ustr ''input'') of
                  Inl e \<Rightarrow> (Inl e, self)
                | Inr (PDict inp) \<Rightarrow>
                    (case dict_get inp (ustr ''actions'') of
                       PList acts \<Rightarrow> (Inr (), self\<lparr>capture_actions := acts\<rparr>)
                     | _ \<Rightarrow> (Inr (), self))
                | Inr _ \<Rightarrow> (Inr (), self)))"

text \<open>
  A sequence of parts fed to one capture object, call after call. The object outlives
  a call that raises (the caller of the streaming loop catches the exception and goes
  on feeding the same object from the blocking response), so the object after the
  sequence is the fold of the calls' effects on it.
\<close>

fun absorb_all :: "pyval list \<Rightarrow> ToolCapture \<Rightarrow> ToolCapture" where
  "absorb_all [] self = self"
| "absorb_all (part # parts) self = absorb_all parts (snd (absorb part self))"

text \<open>
  The rule of the specification, in its words: a part qualifies when its tool
  invocation supplies a mapping with an \<open>actions\<close> field holding a list.
  \<open>qualifying_actions\<close> gives that list.
\<close>

definition qualifying_actions :: "pyval \<Rightarrow> pyval list option" where
  "qualifying_actions part =
     (case part of
        PDict p \<Rightarrow>
          (case map_of p (ustr ''toolUse'') of
             Some (PDict tu) \<Rightarrow>
               (case map_of tu (ustr ''input'') of
                  Some (PDict inp) \<Rightarrow>
                    (case map_of inp (ustr ''actions'') of
                       Some (PList acts) \<Rightarrow> Some acts
                     | _ \<Rightarrow> None)
                | _ \<Rightarrow> None)
           | _ \<Rightarrow> None)
      | _ \<Rightarrow> None)"

text \<open>The last qualifying part's list, if any part qualifies.\<close>

definition last_qualifying :: "pyval list \<Rightarrow> pyval list option" where
  "last_qualifying parts =
     (case rev (List.map_filter qualifying_actions parts) of
        [] \<Rightarrow> None
      | acts # _ \<Rightarrow> Some acts)"

section \<open>Context snapshot builder\<close>

text \<open>
  \<^verbatim>\<open>
  def _context_blob(context: Optional[Dict[str, Any]], char_budget: int = 10000) -> str:
      if not context or "files" not in context: return ""
      files = context["files"]
      chunks = []
      used = 0
      for rel, src in files.items():
          header = f"\n--- FILE: {rel} ---\n"
          take = max(0, char_budget - used - len(header))
          if take <= 0: break
          body = (src if len(src) <= take else src[:take])
          chunks.append(header + body)
          used += len(header) + len(body)
          if used >= char_budget: break
      return "".join(chunks)
  \<close>
\<close>

definition file_header :: "pystr \<Rightarrow> pystr" where
  "file_header rel = ustr ''\<newline>--- FILE: '' @ rel @ ustr '' ---\<newline>''"

text \<open>
  The loop over \<open>files.items()\<close>, with the accumulators \<open>chunks\<close> and \<open>used\<close>.
  The contents \<open>src\<close> of a file are of type \<open>Any\<close>. Only a string gets through
  the loop body: \<open>len\<close> raises \<open>TypeError\<close> on \<open>None\<close>, a bool and a number, and
  a list or a dict has a length but then \<open>header + body\<close> (or, for a dict, the
  slice before it) raises. The contents are not looked at once the room left is used up.
\<close>

fun blob_loop :: "pydict \<Rightarrow> int \<Rightarrow> pystr list \<Rightarrow> int \<Rightarrow> exn + pystr list" where
  "blob_loop [] char_budget chunks used = Inr chunks"
| "blob_loop ((rel, src) # files) char_budget chunks used =
     (let header = file_header rel;
          take_n = max 0 (char_budget - used - int (length header))
      in if take_n \<le> 0 then Inr chunks
         else (case src of
                 PStr s \<Rightarrow>
                   (let body = (if int (length s) \<le> take_n then s else take (nat take_n) s);
                        chunks' = chunks @ [header @ body];
                        used' = used + (int (length header) + int (length body))
                    in if used' \<ge> char_budget then Inr chunks'
                       else blob_loop files char_budget chunks' used')
               | _ \<Rightarrow> Inl TypeError))"

text \<open>
  The function itself. \<open>context\<close> is \<open>Optional[Dict[str, Any]]\<close>; its \<open>files\<close>
  entry is of type \<open>Any\<close>, and \<open>files.items()\<close> raises \<open>AttributeError\<close> on
  anything but a dict.
\<close>

definition context_blob :: "pydict option \<Rightarrow> int \<Rightarrow> exn + pystr" where
  "context_blob context char_budget =
     (case context of
        None \<Rightarrow> Inr []
      | Some ctx \<Rightarrow>
          (case map_of ctx (ustr ''files'') of
             None \<Rightarrow> Inr []
           | Some (PDict files) \<Rightarrow>
               (case blob_loop files char_budget [] 0 of
                  Inl e \<Rightarrow> Inl e
                | Inr chunks \<Rightarrow> Inr (concat chunks))
           | Some _ \<Rightarrow> Inl AttributeError))"

text \<open>A mapping from file path to contents, both strings, as a value.\<close>

definition str_files :: "(pystr \<times> pystr) list \<Rightarrow> pydict" where
  "str_files fs = map (\<lambda>(rel, src). (rel, PStr src)) fs"

text \<open>
  What the specification says of the chunks, in its words: file by file in the
  mapping's order, each chunk is the file's header followed by a body taken from the
  front of the file's contents; only the last chunk's body may be cut short; the files
  after the last chunk are left out.
\<close>

fun only_last_truncated :: "(pystr \<times> pystr) list \<Rightarrow> pystr list \<Rightarrow> bool" where
  "only_last_truncated fs [] = True"
| "only_last_truncated [] (c # cs) = False"
| "only_last_truncated ((rel, src) # fs) (c # cs) =
     (let h = file_header rel; body = drop (length h) c
      in take (length h) c = h \<and> take (length body) src = body \<and>
         (cs \<noteq> [] \<longrightarrow> body = src) \<and> only_last_truncated fs cs)"

text \<open>The size of a mapping: all headers plus all bodies.\<close>

definition total_size :: "(pystr \<times> pystr) list \<Rightarrow> int" where
  "total_size fs = (\<Sum>(rel, src)\<leftarrow>fs. int (length (file_header rel)) + int (length src))"

section \<open>Trace bus\<close>

text \<open>
  \<^verbatim>\<open>
  SESSION_QUEUES: Dict[str, asyncio.Queue[Tuple[str, dict]]] = {}

  def _get_queue(session_id: str) -> asyncio.Queue:
      q = SESSION_QUEUES.get(session_id)
      if q is None:
          q = asyncio.Queue()
          SESSION_QUEUES[session_id] = q
      return q

  def trace(session_id: str, kind: str, payload: dict):
      q = _get_queue(session_id)
      q.put_nowait((kind, payload))
  \<close>
  A queue is an object: the registry holds a reference to it, and so does the
  generator of every subscriber that was given it. The model keeps the queues in a
  store, by address, so that a queue taken out of the registry is still there for
  the generator that holds it. The queues are unbounded: \<open>put_nowait\<close> cannot fail.
\<close>

type_synonym trace_event = "pystr \<times> pyval"

record bus =
  SESSION_QUEUES :: "pystr \<rightharpoonup> nat"
  queue_store :: "nat \<Rightarrow> trace_event list"
  next_queue :: nat

definition bus_init :: bus where
  "bus_init = \<lparr>SESSION_QUEUES = Map.empty, queue_store = (\<lambda>q. []), next_queue = 0\<rparr>"

definition get_queue :: "pystr \<Rightarrow> bus \<Rightarrow> nat \<times> bus" where
  "get_queue session_id b =
     (case SESSION_QUEUES b session_id of
        Some q \<Rightarrow> (q, b)
      | None \<Rightarrow>
          (let q = next_queue b
           in (q, b\<lparr>SESSION_QUEUES := (SESSION_QUEUES b)(session_id \<mapsto> q),
                     queue_store := (queue_store b)(q := []),
                     next_queue := Suc q\<rparr>)))"

definition trace :: "pystr \<Rightarrow> pystr \<Rightarrow> pyval \<Rightarrow> bus \<Rightarrow> bus" where
  "trace session_id kind payload b =
     (case get_queue session_id b of
        (q, b') \<Rightarrow> b'\<lparr>queue_store := (queue_store b')(q := queue_store b' q @ [(kind, payload)])\<rparr>)"

text \<open>
  \<^verbatim>\<open>
  async def trace_stream(session_id: str):
      q = _get_queue(session_id)
      async def gen():
          yield "event: hello\n" + f"data: {json.dumps({'ts': time.time()})}\n\n"
          last_ping = time.time()
          try:
              while True:
                  try:
                      kind, payload = await asyncio.wait_for(q.get(), timeout=5.0)
                      yield f"event: {kind}\n" + f"data: {json.dumps(payload, ensure_ascii=False)}\n\n"
                  except asyncio.TimeoutError:
                      yield ": keepalive\n\n"
                      ...
          finally:
              SESSION_QUEUES.pop(session_id, None)
      return StreamingResponse(gen(), ...)
  \<close>
  Connecting takes the session's queue and makes the generator, which keeps the queue
  and has not run yet. The generator is suspended at one of these places: before its
  first statement; at the \<open>hello\<close> \<open>yield\<close>, which stands before the \<open>try\<close>; in the
  loop (waiting for an event, or at one of the two \<open>yield\<close>s of the loop), which is
  inside the \<open>try\<close>; or it is finished.
\<close>

datatype sse_frame = Hello | Event pystr pyval | Keepalive

datatype gen_at = NotStarted | AtHello | InLoop | Done

record subscriber =
  sub_session :: pystr
  sub_queue :: nat
  sub_at :: gen_at

definition trace_stream :: "pystr \<Rightarrow> bus \<Rightarrow> subscriber \<times> bus" where
  "trace_stream session_id b =
     (case get_queue session_id b of
        (q, b') \<Rightarrow> (\<lparr>sub_session = session_id, sub_queue = q, sub_at = NotStarted\<rparr>, b'))"

text \<open>
  Asking the generator for its next frame. The first request runs it up to the
  \<open>hello\<close> frame. Every later one is a turn of the loop: it gives the oldest event of
  the queue, or the keepalive when the wait ends with the queue still empty; what is
  pushed during the wait is a push before the turn. A finished generator gives
  nothing. The frames are kept as data rather than as the text sent.
\<close>

definition gen_next :: "subscriber \<Rightarrow> bus \<Rightarrow> sse_frame option \<times> subscriber \<times> bus" where
  "gen_next g b =
     (case sub_at g of
        NotStarted \<Rightarrow> (Some Hello, g\<lparr>sub_at := AtHello\<rparr>, b)
      | Done \<Rightarrow> (None, g, b)
      | _ \<Rightarrow>
          (case queue_store b (sub_queue g) of
             [] \<Rightarrow> (Some Keepalive, g\<lparr>sub_at := InLoop\<rparr>, b)
           | (kind, payload) # rest \<Rightarrow>
               (Some (Event kind payload), g\<lparr>sub_at := InLoop\<rparr>,
                b\<lparr>queue_store := (queue_store b)(sub_queue g := rest)\<rparr>)))"

text \<open>
  The consumer has asked for the frame after \<open>hello\<close> and the generator waits for an
  event: it has entered the \<open>try\<close> and is in the loop, with nothing sent yet.
\<close>

definition gen_await :: "subscriber \<Rightarrow> subscriber" where
  "gen_await g = (if sub_at g = AtHello then g\<lparr>sub_at := InLoop\<rparr> else g)"

text \<open>
  Tearing the generator down (the client disconnects, the response is cancelled or
  the generator is closed) raises the exit at the place where the generator is
  suspended. The \<open>finally\<close> clause, which pops the session's entry of the registry,
  runs only when that place is inside the \<open>try\<close>: in the loop. A generator torn down
  before its first statement or at the \<open>hello\<close> frame just ends.
\<close>

definition gen_close :: "subscriber \<Rightarrow> bus \<Rightarrow> subscriber \<times> bus" where
  "gen_close g b =
     (case sub_at g of
        InLoop \<Rightarrow>
          (g\<lparr>sub_at := Done\<rparr>,
           b\<lparr>SESSION_QUEUES := (SESSION_QUEUES b)(sub_session g := None)\<rparr>)
      | _ \<Rightarrow> (g\<lparr>sub_at := Done\<rparr>, b))"

text \<open>
  The events waiting in a session's queue, none when the session has no queue; and the
  invariant of the allocator: every registered queue was allocated before.
\<close>

definition queued :: "pystr \<Rightarrow> bus \<Rightarrow> trace_event list" where
  "queued session_id b =
     (case SESSION_QUEUES b session_id of
        None \<Rightarrow> []
      | Some q \<Rightarrow> queue_store b q)"

definition bus_ok :: "bus \<Rightarrow> bool" where
  "bus_ok b = (\<forall>session_id q. SESSION_QUEUES b session_id = Some q \<longrightarrow> q < next_queue b)"

text \<open>
  What the specification says of the bus, in its words: an event pushed before a
  subscriber connects is not delivered to that subscriber, and an event pushed after a
  subscriber disconnects is dropped. \<open>delivered_on_connect\<close> is the first frame after
  \<open>hello\<close> of a subscriber that connects right after one push.
  \<open>subscriber_came_and_went\<close> is the bus after a subscriber of the session has
  connected, read \<open>hello\<close> and one frame of the loop, and disconnected.
\<close>

definition delivered_on_connect :: "pystr \<Rightarrow> pystr \<Rightarrow> pyval \<Rightarrow> bus \<Rightarrow> sse_frame option" where
  "delivered_on_connect session_id kind payload b =
     (case trace_stream session_id (trace session_id kind payload b) of
        (g, b1) \<Rightarrow>
          (case gen_next g b1 of
             (hello, g1, b2) \<Rightarrow> fst (gen_next g1 b2)))"

definition subscriber_came_and_went :: "pystr \<Rightarrow> bus \<Rightarrow> bus" where
  "subscriber_came_and_went session_id b =
     (case trace_stream session_id b of
        (g, b1) \<Rightarrow>
          (case gen_next g b1 of
             (hello, g1, b2) \<Rightarrow>
               (case gen_next g1 b2 of
                  (frame, g2, b3) \<Rightarrow> snd (gen_close g2 b3))))"

section \<open>Model gateway\<close>

text \<open>
  \<^verbatim>\<open>
  def _retry_without_tools_if_needed(self, fn, req: Dict[str, Any]):
      try:
          return fn(**req)
      except ParamValidationError as e:
          msg = str(e)
          if 'Unknown parameter in input: "tools"' in msg or "Unknown parameter in input: 'tools'" in msg:
              req2 = dict(req)
              req2.pop("tools", None)
              req2.pop("toolConfig", None)
              log.warning("SDK rejected 'tools'; retrying without tools for %s", fn.__name__)
              return fn(**req2)
          raise
  \<close>
  The transport \<open>fn\<close> is outside the program: a function of the request and of the
  transport's own state \<open>'t\<close>, which returns a response or raises.
\<close>

definition names_tools :: "pystr \<Rightarrow> bool" where
  "names_tools msg =
     (str_contains (ustr ''Unknown parameter in input: '' @ [34] @ ustr ''tools'' @ [34]) msg \<or>
      str_contains (ustr ''Unknown parameter in input: '' @ [39] @ ustr ''tools'' @ [39]) msg)"

definition without_tools :: "pydict \<Rightarrow> pydict" where
  "without_tools req = dict_pop (dict_pop req (ustr ''tools'')) (ustr ''toolConfig'')"

definition retry_without_tools_if_needed ::
  "(pydict \<Rightarrow> 't \<Rightarrow> (exn + 'r) \<times> 't) \<Rightarrow> pydict \<Rightarrow> 't \<Rightarrow> (exn + 'r) \<times> 't" where
  "retry_without_tools_if_needed fn req t =
     (case fn req t of
        (Inl (ParamValidationError msg), t1) \<Rightarrow>
          if names_tools msg then fn (without_tools req) t1
          else (Inl (ParamValidationError msg), t1)
      | (r, t1) \<Rightarrow> (r, t1))"

text \<open>
  A transport that also writes down every request submitted to it, to count the
  submissions.
\<close>

definition logged ::
  "(pydict \<Rightarrow> 't \<Rightarrow> (exn + 'r) \<times> 't) \<Rightarrow> pydict \<Rightarrow> pydict list \<times> 't \<Rightarrow> (exn + 'r) \<times> (pydict list \<times> 't)" where
  "logged fn req lt = (case fn req (snd lt) of (r, t') \<Rightarrow> (r, (fst lt @ [req], t')))"

text \<open>
  What the specification says of the trigger, in its words: a parameter-validation
  failure naming the \<open>tools\<close> or the \<open>toolConfig\<close> field.
\<close>

definition names_tools_or_toolConfig :: "pystr \<Rightarrow> bool" where
  "names_tools_or_toolConfig msg =
     (names_tools msg \<or>
      str_contains (ustr ''Unknown parameter in input: '' @ [34] @ ustr ''toolConfig'' @ [34]) msg \<or>
      str_contains (ustr ''Unknown parameter in input: '' @ [39] @ ustr ''toolConfig'' @ [39]) msg)"

section \<open>The world outside and the process state\<close>

text \<open>
  What the program calls and does not define is a field of the environment: the
  transport client's two operations, the JSON parser, the regular-expression and
  string library, the identifier generator and the configured model id. A transport
  operation takes the request and the transport's state and returns a response or raises.

  A streamed response is the events its iterator yields and, if the iteration ends with
  an exception (a read timeout, a dropped connection), that exception.
  \<open>run_until_complete_error\<close> is the exception, if any, with which the event loop
  refuses to run the streaming coroutine at all.

  A regular-expression match is its groups, by number.
\<close>

record event_stream =
  stream_events :: "pydict list"
  stream_failure :: "exn option"

datatype re_flag = re_I | re_S

type_synonym re_match = "nat \<Rightarrow> pystr"

record 't env =
  MODEL_ID :: pystr
  uuid4 :: pystr
  client_converse :: "pydict \<Rightarrow> 't \<Rightarrow> (exn + pydict) \<times> 't"
  client_converse_stream :: "pydict \<Rightarrow> 't \<Rightarrow> (exn + event_stream) \<times> 't"
  run_until_complete_error :: "exn option"
  json_loads :: "pystr \<Rightarrow> exn + pyval"
  str_lower :: "pystr \<Rightarrow> pystr"
  re_search :: "pystr \<Rightarrow> re_flag list \<Rightarrow> pystr \<Rightarrow> re_match option"
  re_sub :: "pystr \<Rightarrow> pystr \<Rightarrow> pystr \<Rightarrow> pystr"

text \<open>
  The process state: the trace bus, the chat store \<open>_SESSIONS\<close> and the transport's
  state.
\<close>

record 't world =
  trace_bus :: bus
  SESSIONS :: "pystr \<rightharpoonup> pyval list"
  client :: 't

definition wtrace :: "pystr \<Rightarrow> pystr \<Rightarrow> pyval \<Rightarrow> 't world \<Rightarrow> 't world" where
  "wtrace session_id kind payload w = w\<lparr>trace_bus := trace session_id kind payload (trace_bus w)\<rparr>"

text \<open>
  \<^verbatim>\<open>
  def converse(self, system_prompt, messages, tools=None, tool_config=None, inference_config=None):
      req: Dict[str, Any] = {"modelId": self.model_id, "messages": messages}
      if system_prompt: req["system"] = [{"text": system_prompt}]
      if tools: req["tools"] = tools
      if tool_config: req["toolConfig"] = tool_config
      if inference_config: req["inferenceConfig"] = inference_config
      return self._retry_without_tools_if_needed(self.client.converse, req)

  def converse_stream(self, system_prompt, messages, tools=None, inference_config=None):
      req: Dict[str, Any] = {"modelId": self.model_id, "messages": messages}
      if system_prompt: req["system"] = [{"text": system_prompt}]
      if tools: req["tools"] = tools
      if inference_config: req["inferenceConfig"] = inference_config
      return self._retry_without_tools_if_needed(self.client.converse_stream, req)
  \<close>
  An argument left out is \<open>None\<close>.
\<close>

definition set_if :: "pydict \<Rightarrow> pystr \<Rightarrow> pyval \<Rightarrow> pyval \<Rightarrow> pydict" where
  "set_if req k cond v = (if truthy cond then dict_set req k v else req)"

definition converse_request :: "'t env \<Rightarrow> pyval \<Rightarrow> pyval list \<Rightarrow> pyval \<Rightarrow> pyval \<Rightarrow> pyval \<Rightarrow> pydict" where
  "converse_request env system_prompt messages tools tool_config inference_config =
     (let req = [(ustr ''modelId'', PStr (MODEL_ID env)), (ustr ''messages'', PList messages)];
          req = set_if req (ustr ''system'') system_prompt
                  (PList [PDict [(ustr ''text'', system_prompt)]]);
          req = set_if req (ustr ''tools'') tools tools;
          req = set_if req (ustr ''toolConfig'') tool_config tool_config;
          req = set_if req (ustr ''inferenceConfig'') inference_config inference_config
      in req)"

definition converse ::
  "'t env \<Rightarrow> pyval \<Rightarrow> pyval list \<Rightarrow> pyval \<Rightarrow> pyval \<Rightarrow> pyval \<Rightarrow> 't \<Rightarrow> (exn + pydict) \<times> 't" where
  "converse env system_prompt messages tools tool_config inference_config t =
     retry_without_tools_if_needed (client_converse env)
       (converse_request env system_prompt messages tools tool_config inference_config) t"

definition converse_stream ::
  "'t env \<Rightarrow> pyval \<Rightarrow> pyval list \<Rightarrow> pyval \<Rightarrow> pyval \<Rightarrow> 't \<Rightarrow> (exn + event_stream) \<times> 't" where
  "converse_stream env system_prompt messages tools inference_config t =
     retry_without_tools_if_needed (client_converse_stream env)
       (converse_request env system_prompt messages tools PNone inference_config) t"

section \<open>Prompts and tools\<close>

definition PLANNER_SYSTEM :: pystr where
  "PLANNER_SYSTEM = ustr (''You are a software planning agent. Prefer the emit_plan tool to return actionable steps. '' @
     ''Avoid long prose; keep outputs concise.'')"

definition CHAT_SYSTEM :: pystr where
  "CHAT_SYSTEM = ustr ''You are a helpful, concise engineering assistant. Keep answers brief.''"

definition JSON_PLAN_SYSTEM :: pystr where
  \<open>JSON_PLAN_SYSTEM = ustr (''You are a code planning agent for a Next.js app. '' @
     ''Output ONLY strict minified JSON, no prose, no markdown, no comments. '' @
     ''Schema: {"actions":[{"type":"create_file|update_file|delete_file|run_command",'' @
     ''"path"?:string, "contents"?:string, "command"?:string}]}. '' @
     ''Always include full file contents for create/update. '' @
     ''Prefer updating or creating Next.js routes under app/**/page.tsx so a preview updates. '' @
     ''If the user asks to 'clear components', remove or simplify components and update app/page.tsx accordingly.'')\<close>

definition json_type :: "string \<Rightarrow> pydict" where
  "json_type ty = [(ustr ''type'', PStr (ustr ty))]"

definition string_array :: pyval where
  "string_array = PDict (json_type ''array'' @ [(ustr ''items'', PDict (json_type ''string''))])"

definition EMIT_PLAN_TOOL :: pyval where
  "EMIT_PLAN_TOOL = PList [PDict [(ustr ''toolSpec'', PDict
     [(ustr ''name'', PStr (ustr ''emit_plan'')),
      (ustr ''description'',
         PStr (ustr ''Return a structured plan JSON. May include an 'actions' array with file/command steps.'')),
      (ustr ''inputSchema'', PDict [(ustr ''json'', PDict (json_type ''object'' @
         [(ustr ''properties'', PDict
            [(ustr ''summary'', PDict (json_type ''string'')),
             (ustr ''steps'', string_array),
             (ustr ''assumptions'', string_array),
             (ustr ''risks'', string_array),
             (ustr ''actions'', PDict (json_type ''array'' @
                [(ustr ''items'', PDict (json_type ''object'' @
                   [(ustr ''properties'', PDict
                      [(ustr ''type'', PDict (json_type ''string'')),
                       (ustr ''path'', PDict (json_type ''string'')),
                       (ustr ''contents'', PDict (json_type ''string'')),
                       (ustr ''command'', PDict (json_type ''string''))]),
                    (ustr ''required'', PList [PStr (ustr ''type'')])]))]))]),
          (ustr ''required'', PList [PStr (ustr ''summary''), PStr (ustr ''steps'')])]))])])]]"

text \<open>\<open>{"temperature": 0.2}\<close>, and a user message holding one text.\<close>

definition temperature_02 :: pyval where
  "temperature_02 = PDict [(ustr ''temperature'', PFloat True)]"

definition user_message :: "pystr \<Rightarrow> pyval" where
  "user_message t =
     PDict [(ustr ''role'', PStr (ustr ''user'')),
            (ustr ''content'', PList [PDict [(ustr ''text'', PStr t)]])]"

section \<open>Reading a blocking response\<close>

text \<open>
  \<^verbatim>\<open>
  out = resp.get("output", {})
  parts = out.get("message", {}).get("content", [])
  text = "\n".join([p.get("text", "") for p in parts if p.get("text")]).strip()
  \<close>
  The response is a dict; what it holds is of type \<open>Any\<close>. In the comprehension
  \<open>p.get("text", "")\<close> is taken only where \<open>p.get("text")\<close> is truthy, so it is
  that same value.
\<close>

definition response_content :: "pydict \<Rightarrow> exn + pyval" where
  "response_content resp =
     (case py_get_default (dict_get_default resp (ustr ''output'') (PDict [])) (ustr ''message'') (PDict []) of
        Inl e \<Rightarrow> Inl e
      | Inr message \<Rightarrow> py_get_default message (ustr ''content'') (PList []))"

fun text_parts :: "pyval list \<Rightarrow> exn + pyval list" where
  "text_parts [] = Inr []"
| "text_parts (p # ps) =
     (case py_get p (ustr ''text'') of
        Inl e \<Rightarrow> Inl e
      | Inr t \<Rightarrow>
          (case text_parts ps of
             Inl e \<Rightarrow> Inl e
           | Inr ts \<Rightarrow> Inr (if truthy t then t # ts else ts)))"

definition joined_text :: "pyval \<Rightarrow> exn + pystr" where
  "joined_text parts =
     (case py_iter parts of
        Inl e \<Rightarrow> Inl e
      | Inr ps \<Rightarrow>
          (case text_parts ps of
             Inl e \<Rightarrow> Inl e
           | Inr ts \<Rightarrow>
               (case py_join [10] ts of
                  Inl e \<Rightarrow> Inl e
                | Inr s \<Rightarrow> Inr (py_strip s))))"

section \<open>JSON-only fallback planner\<close>

text \<open>
  \<^verbatim>\<open>
  def _json_only_plan(session_id: str, user_text: str, context: Optional[Dict[str, Any]]) -> List[Dict[str, Any]]:
      trace(session_id, "step", {"msg": "json-plan.start"})
      snapshot = _context_blob(context)
      prompt = f"User request:\n{user_text}\n\nProject snapshot:\n{snapshot}\n\nReturn ONLY the JSON per schema."

      messages = [{"role": "user", "content": [{"text": prompt}]}]
      try:
          resp = brx.converse(JSON_PLAN_SYSTEM, messages, tools=None, inference_config={"temperature": 0.2})
          out = resp.get("output", {})
          parts = out.get("message", {}).get("content", [])
          text = "\n".join([p.get("text", "") for p in parts if p.get("text")]).strip()
          if not text:
              trace(session_id, "error", {"where": "json_plan", "message": "empty text"})
              return []
          # robust JSON slice
          start = text.find("{")
          end = text.rfind("}")
          if start >= 0 and end > start:
              text = text[start:end+1]
          data = json.loads(text)
          acts = data.get("actions", [])
          if isinstance(acts, list):
              trace(session_id, "step", {"msg": "json-plan.ok", "count": len(acts)})
              return acts
          trace(session_id, "error", {"where": "json_plan", "message": "no actions key"})
          return []
      except Exception as e:
          trace(session_id, "error", {"where": "json_plan", "message": str(e)})
          return []
  \<close>
\<close>

definition json_plan_prompt :: "pystr \<Rightarrow> pystr \<Rightarrow> pystr" where
  "json_plan_prompt user_text snapshot =
     ustr ''User request:\<newline>'' @ user_text @
     ustr ''\<newline>\<newline>Project snapshot:\<newline>'' @ snapshot @
     ustr ''\<newline>\<newline>Return ONLY the JSON per schema.''"

definition json_slice :: "pystr \<Rightarrow> pystr" where
  "json_slice text =
     (let start = str_find 123 text;
          end' = str_rfind 125 text
      in if start \<ge> 0 \<and> end' > start then str_slice text start (end' + 1) else text)"

definition json_plan_error :: "pystr \<Rightarrow> pyval" where
  "json_plan_error message =
     PDict [(ustr ''where'', PStr (ustr ''json_plan'')), (ustr ''message'', PStr message)]"

text \<open>The body of the \<open>try\<close>: what it returns or raises, and the state it leaves.\<close>

definition json_plan_try ::
  "'t env \<Rightarrow> pystr \<Rightarrow> pyval list \<Rightarrow> 't world \<Rightarrow> (exn + pyval list) \<times> 't world" where
  "json_plan_try env session_id messages w =
     (case converse env (PStr JSON_PLAN_SYSTEM) messages PNone PNone temperature_02 (client w) of
        (Inl e, t) \<Rightarrow> (Inl e, w\<lparr>client := t\<rparr>)
      | (Inr resp, t) \<Rightarrow>
          (let w = w\<lparr>client := t\<rparr> in
           case response_content resp of
             Inl e \<Rightarrow> (Inl e, w)
           | Inr parts \<Rightarrow>
               (case joined_text parts of
                  Inl e \<Rightarrow> (Inl e, w)
                | Inr text \<Rightarrow>
                    if text = [] then
                      (Inr [], wtrace session_id (ustr ''error'') (json_plan_error (ustr ''empty text'')) w)
                    else
                      (case json_loads env (json_slice text) of
                         Inl e \<Rightarrow> (Inl e, w)
                       | Inr data \<Rightarrow>
                           (case py_get_default data (ustr ''actions'') (PList []) of
                              Inl e \<Rightarrow> (Inl e, w)
                            | Inr (PList acts) \<Rightarrow>
                                (Inr acts,
                                 wtrace session_id (ustr ''step'')
                                   (PDict [(ustr ''msg'', PStr (ustr ''json-plan.ok'')),
                                           (ustr ''count'', PInt (int (length acts)))]) w)
                            | Inr _ \<Rightarrow>
                                (Inr [],
                                 wtrace session_id (ustr ''error'')
                                   (json_plan_error (ustr ''no actions key'')) w))))))"

definition json_only_plan ::
  "'t env \<Rightarrow> pystr \<Rightarrow> pystr \<Rightarrow> pydict option \<Rightarrow> 't world \<Rightarrow> (exn + pyval list) \<times> 't world" where
  "json_only_plan env session_id user_text context w =
     (let w = wtrace session_id (ustr ''step'') (PDict [(ustr ''msg'', PStr (ustr ''json-plan.start''))]) w in
      case context_blob context 10000 of
        Inl e \<Rightarrow> (Inl e, w)
      | Inr snapshot \<Rightarrow>
          (let prompt = json_plan_prompt user_text snapshot;
               messages = [user_message prompt]
           in case json_plan_try env session_id messages w of
                (Inl e, w') \<Rightarrow>
                  (Inr [], wtrace session_id (ustr ''error'') (json_plan_error (exn_str e)) w')
              | (Inr acts, w') \<Rightarrow> (Inr acts, w')))"

text \<open>
  What the specification says of the planner's failures, in its words: on a failure
  the trace bus gets an \<open>error\<close> event. \<open>error_traced\<close> tells whether the session's
  queue gained such an event between two states.
\<close>

definition session_events :: "pystr \<Rightarrow> 't world \<Rightarrow> trace_event list" where
  "session_events session_id w = queued session_id (trace_bus w)"

definition error_traced :: "pystr \<Rightarrow> 't world \<Rightarrow> bool" where
  "error_traced session_id w = (ustr ''error'' \<in> set (map fst (session_events session_id w)))"

section \<open>Minimal-action synthesizer\<close>

text \<open>
  \<^verbatim>\<open>
  def _synthesize_minimal_action(user_text: str) -> List[Dict[str, Any]]:
      safe_text = user_text.replace("<", "&lt;").replace(">", "&gt;")
      tsx = f"""export default function Page() {{
    return (
      <main className="min-h-screen grid place-items-center p-10">
        <div className="max-w-xl text-center">
          <h1 className="text-3xl font-bold mb-3">Applied: {safe_text}</h1>
          <p className="text-slate-500">This is a minimal update because the model did not return actionable steps.</p>
        </div>
      </main>
    );
  }}
  """
      return [{"type": "update_file", "path": "app/page.tsx", "contents": tsx}]
  \<close>
\<close>

definition safe_text :: "pystr \<Rightarrow> pystr" where
  "safe_text user_text =
     str_replace1 62 (ustr ''&gt;'') (str_replace1 60 (ustr ''&lt;'') user_text)"

definition tsx_head :: pystr where
  \<open>tsx_head = ustr (''export default function Page() {\<newline>'' @
     ''  return (\<newline>'' @
     ''    <main className="min-h-screen grid place-items-center p-10">\<newline>'' @
     ''      <div className="max-w-xl text-center">\<newline>'' @
     ''        <h1 className="text-3xl font-bold mb-3">Applied: '')\<close>

definition tsx_tail :: pystr where
  \<open>tsx_tail = ustr (''</h1>\<newline>'' @
     ''        <p className="text-slate-500">This is a minimal update because the model did not return actionable steps.</p>\<newline>'' @
     ''      </div>\<newline>'' @
     ''    </main>\<newline>'' @
     ''  );\<newline>'' @
     ''}\<newline>'')\<close>

definition synthesize_minimal_action :: "pystr \<Rightarrow> pyval list" where
  "synthesize_minimal_action user_text =
     (let tsx = tsx_head @ safe_text user_text @ tsx_tail
      in [PDict [(ustr ''type'', PStr (ustr ''update_file'')),
                 (ustr ''path'', PStr (ustr ''app/page.tsx'')),
                 (ustr ''contents'', PStr tsx)]])"

text \<open>
  What the specification says of the escaping, in its words: the HTML-significant
  characters are escaped. These are the characters HTML gives a meaning to in text
  and in attribute values: the ampersand, the two angle brackets and the two quotes.
  \<open>escape_angle\<close> is the escaping of the angle brackets alone, character by character.
\<close>

definition html_significant :: "nat \<Rightarrow> bool" where
  "html_significant c = (c = 38 \<or> c = 60 \<or> c = 62 \<or> c = 34 \<or> c = 39)"

definition escape_angle :: "nat \<Rightarrow> pystr" where
  "escape_angle c = (if c = 60 then ustr ''&lt;'' else if c = 62 then ustr ''&gt;'' else [c])"

section \<open>Result summarizer\<close>

text \<open>
  \<^verbatim>\<open>
  def _peek(s: Optional[str]) -> str:
      if not s: return ""
      t = re.sub(r"\s+", " ", s.strip())
      return t[:60] + ("..." if len(t) > 60 else "")

  def _guess_button_label(src: str) -> Optional[str]:
      m = re.search(r"<button[^>]*>([^<]{1,40})</button>", src, flags=re.I|re.S)
      if m:
          label = m.group(1).strip()
          label = re.sub(r"\s+", " ", label)
          return label
      return None

  def _guess_color(src: str) -> Optional[str]:
      s = src.lower()
      m = re.search(r"\b(bg|text|border)-([a-z]+)-\d{2,3}\b", s)
      if m: return m.group(0)
      m = re.search(r"color:\s*([^;}{]+)", s)
      if m: return f"color {m.group(1).strip()}"
      m = re.search(r"background(?:-color)?:\s*([^;}{]+)", s)
      if m: return f"background {m.group(1).strip()}"
      return None
  \<close>
  The ellipsis the source appends is the single character U+2026 (8230); its opening
  and closing quotes are U+201C and U+201D (8220, 8221), and its check mark is U+2705
  (9989). A backslash in a pattern is the code point 92.
\<close>

definition ws_run :: pystr where
  "ws_run = [92] @ ustr ''s+''"

definition peek :: "'t env \<Rightarrow> pystr \<Rightarrow> pystr" where
  "peek env s =
     (if s = [] then []
      else (let t = re_sub env ws_run (ustr '' '') (py_strip s)
            in take 60 t @ (if length t > 60 then [8230] else [])))"

definition guess_button_label :: "'t env \<Rightarrow> pystr \<Rightarrow> pystr option" where
  "guess_button_label env src =
     (case re_search env (ustr ''<button[^>]*>([^<]{1,40})</button>'') [re_I, re_S] src of
        Some m \<Rightarrow> Some (re_sub env ws_run (ustr '' '') (py_strip (m 1)))
      | None \<Rightarrow> None)"

definition guess_color :: "'t env \<Rightarrow> pystr \<Rightarrow> pystr option" where
  "guess_color env src =
     (let s = str_lower env src in
      case re_search env ([92] @ ustr ''b(bg|text|border)-([a-z]+)-'' @ [92] @ ustr ''d{2,3}'' @ [92] @ ustr ''b'') [] s of
        Some m \<Rightarrow> Some (m 0)
      | None \<Rightarrow>
          (case re_search env (ustr ''color:'' @ [92] @ ustr ''s*([^;}{]+)'') [] s of
             Some m \<Rightarrow> Some (ustr ''color '' @ py_strip (m 1))
           | None \<Rightarrow>
               (case re_search env (ustr ''background(?:-color)?:'' @ [92] @ ustr ''s*([^;}{]+)'') [] s of
                  Some m \<Rightarrow> Some (ustr ''background '' @ py_strip (m 1))
                | None \<Rightarrow> None)))"

text \<open>
  \<^verbatim>\<open>
  def _describe_contents(src: str) -> List[str]:
      hints: List[str] = []
      low = src.lower()
      if "<button" in low:
          lbl = _guess_button_label(src)
          if lbl: hints.append(f"added/updated a button \<open>{lbl}\<close>")
          else: hints.append("added/updated a button")
          c = _guess_color(src)
          if c: hints.append(f"with {c}")
      if re.search(r"<h1[^>]*>", src, flags=re.I): hints.append("changed the main heading")
      if re.search(r"<p[^>]*>", src, flags=re.I): hints.append("updated page copy")
      if re.search(r"className=.*?(grid|flex|container)", src, flags=re.I): hints.append("adjusted layout")
      return hints
  \<close>
  The caller passes \<open>a.get("contents") or ""\<close>, a value of type \<open>Any\<close>:
  \<open>src.lower()\<close> raises \<open>AttributeError\<close> on anything but a string.
\<close>

definition truthy_str :: "pystr option \<Rightarrow> bool" where
  "truthy_str s = (case s of None \<Rightarrow> False | Some t \<Rightarrow> t \<noteq> [])"

definition hint_if :: "re_match option \<Rightarrow> string \<Rightarrow> pystr list" where
  "hint_if m hint = (case m of Some _ \<Rightarrow> [ustr hint] | None \<Rightarrow> [])"

definition describe_contents :: "'t env \<Rightarrow> pyval \<Rightarrow> exn + pystr list" where
  "describe_contents env v =
     (case v of
        PStr src \<Rightarrow>
          (let low = str_lower env src;
               hints =
                 (if str_contains (ustr ''<button'') low then
                    (let lbl = guess_button_label env src;
                         c = guess_color env src
                     in [if truthy_str lbl
                         then ustr ''added/updated a button '' @ [8220] @ the lbl @ [8221]
                         else ustr ''added/updated a button''] @
                        (if truthy_str c then [ustr ''with '' @ the c] else []))
                  else []);
               hints = hints @ hint_if (re_search env (ustr ''<h1[^>]*>'') [re_I] src) ''changed the main heading'';
               hints = hints @ hint_if (re_search env (ustr ''<p[^>]*>'') [re_I] src) ''updated page copy'';
               hints = hints @ hint_if (re_search env (ustr ''className=.*?(grid|flex|container)'') [re_I] src) ''adjusted layout''
           in Inr hints)
      | _ \<Rightarrow> Inl AttributeError)"

text \<open>
  \<^verbatim>\<open>
  def build_assistant_message(user_text: str, actions: List[Dict[str, Any]]) -> str:
      created = sum(1 for a in actions if a["type"] == "create_file")
      updated = sum(1 for a in actions if a["type"] == "update_file")
      deleted = sum(1 for a in actions if a["type"] == "delete_file")
      ran = sum(1 for a in actions if a["type"] == "run_command")
      paths = [a.get("path") for a in actions if a.get("path")]

      insights: List[str] = []
      for a in actions:
          if a["type"] in ("create_file", "update_file"):
              cont = a.get("contents") or ""
              insights.extend(_describe_contents(cont))

      touched = ", ".join(paths[:3]) + ("..." if len(paths) > 3 else "")
      head = "(check) changes applied" if (created + updated + deleted + ran) else "(check) no-op"

      counts = f" ({created} create, {updated} update, {deleted} delete, {ran} run)."
      detail = f" Touched: {touched}." if touched else ""
      hint = f" I {', '.join(insights)}." if insights else ""
      tail = f" You asked: \<open>{_peek(user_text)}\<close>."

      return f"{head}{counts}{detail}{hint}{tail}"
  \<close>
  The actions reach this function as they came out of the capture or of the JSON
  parser: a list of values of type \<open>Any\<close>.
\<close>

fun count_type :: "pystr \<Rightarrow> pyval list \<Rightarrow> exn + nat" where
  "count_type ty [] = Inr 0"
| "count_type ty (a # actions) =
     (case py_getitem a (ustr ''type'') of
        Inl e \<Rightarrow> Inl e
      | Inr v \<Rightarrow>
          (case count_type ty actions of
             Inl e \<Rightarrow> Inl e
           | Inr n \<Rightarrow> Inr ((if v = PStr ty then 1 else 0) + n)))"

fun touched_paths :: "pyval list \<Rightarrow> exn + pyval list" where
  "touched_paths [] = Inr []"
| "touched_paths (a # actions) =
     (case py_get a (ustr ''path'') of
        Inl e \<Rightarrow> Inl e
      | Inr p \<Rightarrow>
          (case touched_paths actions of
             Inl e \<Rightarrow> Inl e
           | Inr ps \<Rightarrow> Inr (if truthy p then p # ps else ps)))"

fun collect_insights :: "'t env \<Rightarrow> pyval list \<Rightarrow> exn + pystr list" where
  "collect_insights env [] = Inr []"
| "collect_insights env (a # actions) =
     (case py_getitem a (ustr ''type'') of
        Inl e \<Rightarrow> Inl e
      | Inr ty \<Rightarrow>
          if ty = PStr (ustr ''create_file'') \<or> ty = PStr (ustr ''update_file'') then
            (case py_get a (ustr ''contents'') of
               Inl e \<Rightarrow> Inl e
             | Inr c \<Rightarrow>
                 (case describe_contents env (if truthy c then c else PStr []) of
                    Inl e \<Rightarrow> Inl e
                  | Inr hs \<Rightarrow>
                      (case collect_insights env actions of
                         Inl e \<Rightarrow> Inl e
                       | Inr rest \<Rightarrow> Inr (hs @ rest))))
          else collect_insights env actions)"

definition summary_text ::
  "'t env \<Rightarrow> pystr \<Rightarrow> nat \<Rightarrow> nat \<Rightarrow> nat \<Rightarrow> nat \<Rightarrow> pystr \<Rightarrow> pystr list \<Rightarrow> pystr" where
  "summary_text env user_text created updated deleted ran' touched insights =
     (let head = [9989] @ (if created + updated + deleted + ran' \<noteq> 0
                           then ustr '' changes applied'' else ustr '' no-op'');
          counts = ustr '' ('' @ str_of_nat created @ ustr '' create, '' @
                   str_of_nat updated @ ustr '' update, '' @
                   str_of_nat deleted @ ustr '' delete, '' @
                   str_of_nat ran' @ ustr '' run).'';
          detail = (if touched \<noteq> [] then ustr '' Touched: '' @ touched @ ustr ''.'' else []);
          hint = (if insights \<noteq> []
                  then ustr '' I '' @ str_join (ustr '', '') insights @ ustr ''.'' else []);
          tail = ustr '' You asked: '' @ [8220] @ peek env user_text @ [8221] @ ustr ''.''
      in head @ counts @ detail @ hint @ tail)"

definition build_assistant_message :: "'t env \<Rightarrow> pystr \<Rightarrow> pyval list \<Rightarrow> exn + pystr" where
  "build_assistant_message env user_text actions =
     (case count_type (ustr ''create_file'') actions of
        Inl e \<Rightarrow> Inl e
      | Inr created \<Rightarrow>
     (case count_type (ustr ''update_file'') actions of
        Inl e \<Rightarrow> Inl e
      | Inr updated \<Rightarrow>
     (case count_type (ustr ''delete_file'') actions of
        Inl e \<Rightarrow> Inl e
      | Inr deleted \<Rightarrow>
     (case count_type (ustr ''run_command'') actions of
        Inl e \<Rightarrow> Inl e
      | Inr ran' \<Rightarrow>
     (case touched_paths actions of
        Inl e \<Rightarrow> Inl e
      | Inr paths \<Rightarrow>
     (case collect_insights env actions of
        Inl e \<Rightarrow> Inl e
      | Inr insights \<Rightarrow>
     (case py_join (ustr '', '') (take 3 paths) of
        Inl e \<Rightarrow> Inl e
      | Inr joined \<Rightarrow>
          (let touched = joined @ (if length paths > 3 then [8230] else [])
           in Inr (summary_text env user_text created updated deleted ran' touched insights)))))))))"

text \<open>An action that carries a \<open>type\<close> key: a dict with that key.\<close>

definition has_type :: "pyval \<Rightarrow> bool" where
  "has_type a = (case a of PDict d \<Rightarrow> map_of d (ustr ''type'') \<noteq> None | _ \<Rightarrow> False)"

section \<open>Plan orchestrator\<close>

text \<open>
  The request and response models, and the error an endpoint raises to its caller.
  \<^verbatim>\<open>
  class PlanRequest(BaseModel):
      input: str
      context: Optional[Dict[str, Any]] = None
      session_id: Optional[str] = None

  class PlanResponse(BaseModel):
      assistant_message: Optional[str] = None
      actions: List[Dict[str, Any]] = []
  \<close>
\<close>

record PlanRequest =
  plan_input :: pystr
  plan_context :: "pydict option"
  plan_session_id :: "pystr option"

record PlanResponse =
  assistant_message :: "pystr option"
  actions :: "pyval list"

record HTTPException =
  status_code :: nat
  detail :: pystr

text \<open>
  The local state of one planning request: the accumulated text chunks, the capture
  object and the process state.
\<close>

record 't plan_locals =
  assistant_chunks :: "pyval list"
  capture :: ToolCapture
  the_world :: "'t world"

type_synonym 't step = "'t plan_locals \<Rightarrow> (exn + unit) \<times> 't plan_locals"

definition then_do :: "'t step \<Rightarrow> 't step \<Rightarrow> 't step" where
  "then_do m k s = (case m s of (Inl e, s') \<Rightarrow> (Inl e, s') | (Inr u, s') \<Rightarrow> k s')"

definition ltrace :: "pystr \<Rightarrow> pystr \<Rightarrow> pyval \<Rightarrow> 't plan_locals \<Rightarrow> 't plan_locals" where
  "ltrace session_id kind payload s = s\<lparr>the_world := wtrace session_id kind payload (the_world s)\<rparr>"

definition set_client :: "'t \<Rightarrow> 't plan_locals \<Rightarrow> 't plan_locals" where
  "set_client t s = s\<lparr>the_world := (the_world s)\<lparr>client := t\<rparr>\<rparr>"

text \<open>
  \<^verbatim>\<open>assistant_chunks.append(t); trace(session_id, "token", {"text": t})\<close>
\<close>

definition token :: "pystr \<Rightarrow> pyval \<Rightarrow> 't plan_locals \<Rightarrow> 't plan_locals" where
  "token session_id t s =
     ltrace session_id (ustr ''token'') (PDict [(ustr ''text'', t)])
       (s\<lparr>assistant_chunks := assistant_chunks s @ [t]\<rparr>)"

definition phase_plan :: pyval where
  "phase_plan = PDict [(ustr ''phase'', PStr (ustr ''plan''))]"

text \<open>
  The body of the streaming loop, one \<open>if\<close> after the other. An event is a dict; what
  it holds is of type \<open>Any\<close>.
  \<^verbatim>\<open>
  for ev in stream.get("stream"):
      if "contentBlockDelta" in ev:
          delta = ev["contentBlockDelta"].get("delta", {})
          if "text" in delta:
              t = delta["text"]; assistant_chunks.append(t)
              trace(session_id, "token", {"text": t})
          if "toolUse" in delta:
              trace(session_id, "tool.delta", delta["toolUse"])
      if "contentBlockStart" in ev:
          start = ev["contentBlockStart"].get("start", {})
          if "toolUse" in start: trace(session_id, "tool.start", start["toolUse"])
      if "contentBlockStop" in ev:
          stop = ev["contentBlockStop"].get("stop", {})
          if "toolUse" in stop: trace(session_id, "tool.stop", stop["toolUse"])
      if "message" in ev:
          for part in ev["message"].get("content", []):
              capture.absorb(part)
              if part.get("text"):
                  t = part["text"]; assistant_chunks.append(t)
                  trace(session_id, "token", {"text": t})
      if "metadata" in ev and "usage" in ev["metadata"]:
          u = ev["metadata"]["usage"]
          trace(session_id, "meta", {"inputTokens": u.get("inputTokens"), "outputTokens": u.get("outputTokens")})
      if "messageStop" in ev:
          trace(session_id, "model.stop", {"phase": "plan"})
  \<close>
\<close>

definition text_member :: "pystr \<Rightarrow> pyval \<Rightarrow> 't step" where
  "text_member session_id delta s =
     (case py_contains (ustr ''text'') delta of
        Inl e \<Rightarrow> (Inl e, s)
      | Inr False \<Rightarrow> (Inr (), s)
      | Inr True \<Rightarrow>
          (case py_getitem delta (ustr ''text'') of
             Inl e \<Rightarrow> (Inl e, s)
           | Inr t \<Rightarrow> (Inr (), token session_id t s)))"

definition toolUse_member :: "pystr \<Rightarrow> pystr \<Rightarrow> pyval \<Rightarrow> 't step" where
  "toolUse_member session_id kind v s =
     (case py_contains (ustr ''toolUse'') v of
        Inl e \<Rightarrow> (Inl e, s)
      | Inr False \<Rightarrow> (Inr (), s)
      | Inr True \<Rightarrow>
          (case py_getitem v (ustr ''toolUse'') of
             Inl e \<Rightarrow> (Inl e, s)
           | Inr tu \<Rightarrow> (Inr (), ltrace session_id kind tu s)))"

definition on_contentBlockDelta :: "pystr \<Rightarrow> pydict \<Rightarrow> 't step" where
  "on_contentBlockDelta session_id ev s =
     (case map_of ev (ustr ''contentBlockDelta'') of
        None \<Rightarrow> (Inr (), s)
      | Some b \<Rightarrow>
          (case py_get_default b (ustr ''delta'') (PDict []) of
             Inl e \<Rightarrow> (Inl e, s)
           | Inr delta \<Rightarrow>
               then_do (text_member session_id delta)
                 (toolUse_member session_id (ustr ''tool.delta'') delta) s))"

definition on_contentBlock :: "pystr \<Rightarrow> string \<Rightarrow> string \<Rightarrow> string \<Rightarrow> pydict \<Rightarrow> 't step" where
  "on_contentBlock session_id key inner kind ev s =
     (case map_of ev (ustr key) of
        None \<Rightarrow> (Inr (), s)
      | Some b \<Rightarrow>
          (case py_get_default b (ustr inner) (PDict []) of
             Inl e \<Rightarrow> (Inl e, s)
           | Inr v \<Rightarrow> toolUse_member session_id (ustr kind) v s))"

fun absorb_parts :: "pystr \<Rightarrow> pyval list \<Rightarrow> 't step" where
  "absorb_parts session_id [] s = (Inr (), s)"
| "absorb_parts session_id (part # parts) s =
     (case absorb part (capture s) of
        (Inl e, c) \<Rightarrow> (Inl e, s\<lparr>capture := c\<rparr>)
      | (Inr u, c) \<Rightarrow>
          (case py_get part (ustr ''text'') of
             Inl e \<Rightarrow> (Inl e, s\<lparr>capture := c\<rparr>)
           | Inr t \<Rightarrow>
               absorb_parts session_id parts
                 (if truthy t then token session_id t (s\<lparr>capture := c\<rparr>) else s\<lparr>capture := c\<rparr>)))"

definition on_message :: "pystr \<Rightarrow> pydict \<Rightarrow> 't step" where
  "on_message session_id ev s =
     (case map_of ev (ustr ''message'') of
        None \<Rightarrow> (Inr (), s)
      | Some m \<Rightarrow>
          (case py_get_default m (ustr ''content'') (PList []) of
             Inl e \<Rightarrow> (Inl e, s)
           | Inr content \<Rightarrow>
               (case py_iter content of
                  Inl e \<Rightarrow> (Inl e, s)
                | Inr parts \<Rightarrow> absorb_parts session_id parts s)))"

definition on_metadata :: "pystr \<Rightarrow> pydict \<Rightarrow> 't step" where
  "on_metadata session_id ev s =
     (case map_of ev (ustr ''metadata'') of
        None \<Rightarrow> (Inr (), s)
      | Some md \<Rightarrow>
          (case py_contains (ustr ''usage'') md of
             Inl e \<Rightarrow> (Inl e, s)
           | Inr False \<Rightarrow> (Inr (), s)
           | Inr True \<Rightarrow>
               (case py_getitem md (ustr ''usage'') of
                  Inl e \<Rightarrow> (Inl e, s)
                | Inr u \<Rightarrow>
                    (case py_get u (ustr ''inputTokens'') of
                       Inl e \<Rightarrow> (Inl e, s)
                     | Inr i \<Rightarrow>
                         (case py_get u (ustr ''outputTokens'') of
                            Inl e \<Rightarrow> (Inl e, s)
                          | Inr out \<Rightarrow>
                              (Inr (), ltrace session_id (ustr ''meta'')
                                 (PDict [(ustr ''inputTokens'', i), (ustr ''outputTokens'', out)]) s))))))"

definition on_messageStop :: "pystr \<Rightarrow> pydict \<Rightarrow> 't step" where
  "on_messageStop session_id ev s =
     (case map_of ev (ustr ''messageStop'') of
        None \<Rightarrow> (Inr (), s)
      | Some _ \<Rightarrow> (Inr (), ltrace session_id (ustr ''model.stop'') phase_plan s))"

definition handle_event :: "pystr \<Rightarrow> pydict \<Rightarrow> 't step" where
  "handle_event session_id ev =
     then_do (on_contentBlockDelta session_id ev)
    (then_do (on_contentBlock session_id ''contentBlockStart'' ''start'' ''tool.start'' ev)
    (then_do (on_contentBlock session_id ''contentBlockStop'' ''stop'' ''tool.stop'' ev)
    (then_do (on_message session_id ev)
    (then_do (on_metadata session_id ev)
             (on_messageStop session_id ev)))))"

fun run_events :: "pystr \<Rightarrow> pydict list \<Rightarrow> 't step" where
  "run_events session_id [] s = (Inr (), s)"
| "run_events session_id (ev # evs) s =
     (case handle_event session_id ev s of
        (Inl e, s') \<Rightarrow> (Inl e, s')
      | (Inr u, s') \<Rightarrow> run_events session_id evs s')"

text \<open>
  \<^verbatim>\<open>
  async def _run_stream():
      stream = brx.converse_stream(
          PLANNER_SYSTEM, messages, tools=EMIT_PLAN_TOOL, inference_config={"temperature": 0.2}
      )
      for ev in stream.get("stream"):
          ...
  \<close>
\<close>

definition run_stream :: "'t env \<Rightarrow> pystr \<Rightarrow> pyval list \<Rightarrow> 't step" where
  "run_stream env session_id messages s =
     (case run_until_complete_error env of
        Some e \<Rightarrow> (Inl e, s)
      | None \<Rightarrow>
          (case converse_stream env (PStr PLANNER_SYSTEM) messages EMIT_PLAN_TOOL temperature_02
                  (client (the_world s)) of
             (Inl e, t) \<Rightarrow> (Inl e, set_client t s)
           | (Inr stream, t) \<Rightarrow>
               (case run_events session_id (stream_events stream) (set_client t s) of
                  (Inl e, s') \<Rightarrow> (Inl e, s')
                | (Inr u, s') \<Rightarrow>
                    (case stream_failure stream of
                       Some e \<Rightarrow> (Inl e, s')
                     | None \<Rightarrow> (Inr (), s')))))"

text \<open>
  The handler of a failed or timed-out stream.
  \<^verbatim>\<open>
  except Exception as stream_err:
      log.warning("Streaming timed out or failed, falling back: %s", stream_err)
      resp = brx.converse(PLANNER_SYSTEM, messages, tools=EMIT_PLAN_TOOL, inference_config={"temperature": 0.2})
      out = resp.get("output", {})
      parts = out.get("message", {}).get("content", [])
      for p in parts:
          if p.get("text"):
              t = p["text"]; assistant_chunks.append(t)
              trace(session_id, "token", {"text": t})
          capture.absorb(p)
      trace(session_id, "model.stop", {"phase": "plan"})
  \<close>
\<close>

fun fallback_parts :: "pystr \<Rightarrow> pyval list \<Rightarrow> 't step" where
  "fallback_parts session_id [] s = (Inr (), s)"
| "fallback_parts session_id (p # ps) s =
     (case py_get p (ustr ''text'') of
        Inl e \<Rightarrow> (Inl e, s)
      | Inr t \<Rightarrow>
          (let s = (if truthy t then token session_id t s else s) in
           case absorb p (capture s) of
             (Inl e, c) \<Rightarrow> (Inl e, s\<lparr>capture := c\<rparr>)
           | (Inr u, c) \<Rightarrow> fallback_parts session_id ps (s\<lparr>capture := c\<rparr>)))"

definition nonstream_fallback :: "'t env \<Rightarrow> pystr \<Rightarrow> pyval list \<Rightarrow> 't step" where
  "nonstream_fallback env session_id messages s =
     (case converse env (PStr PLANNER_SYSTEM) messages EMIT_PLAN_TOOL PNone temperature_02
             (client (the_world s)) of
        (Inl e, t) \<Rightarrow> (Inl e, set_client t s)
      | (Inr resp, t) \<Rightarrow>
          (case response_content resp of
             Inl e \<Rightarrow> (Inl e, set_client t s)
           | Inr parts \<Rightarrow>
               (case py_iter parts of
                  Inl e \<Rightarrow> (Inl e, set_client t s)
                | Inr ps \<Rightarrow>
                    (case fallback_parts session_id ps (set_client t s) of
                       (Inl e, s') \<Rightarrow> (Inl e, s')
                     | (Inr u, s') \<Rightarrow>
                         (Inr (), ltrace session_id (ustr ''model.stop'') phase_plan s')))))"

definition stream_or_fallback :: "'t env \<Rightarrow> pystr \<Rightarrow> pyval list \<Rightarrow> 't step" where
  "stream_or_fallback env session_id messages s =
     (case run_stream env session_id messages s of
        (Inl stream_err, s') \<Rightarrow> nonstream_fallback env session_id messages s'
      | (Inr u, s') \<Rightarrow> (Inr (), s'))"

text \<open>
  The rest of the \<open>try\<close> block, from the captured actions on.
  \<^verbatim>\<open>
  actions: List[Dict[str, Any]] = capture.actions

  if not actions:
      actions = _json_only_plan(session_id, user_text, req.context)

  if not actions:
      trace(session_id, "step", {"msg": "synthesize.minimal"})
      actions = _synthesize_minimal_action(user_text)

  trace(session_id, "step", {"msg": "planning.response", "actions": len(actions)})

  short_msg = build_assistant_message(user_text, actions)

  return PlanResponse(assistant_message=short_msg, actions=actions)
  \<close>
  Building the response validates it against the model: every action has to be a
  dict, or the constructor raises.
\<close>

definition step_msg :: "string \<Rightarrow> pydict" where
  "step_msg m = [(ustr ''msg'', PStr (ustr m))]"

definition is_dict :: "pyval \<Rightarrow> bool" where
  "is_dict v = (case v of PDict d \<Rightarrow> True | _ \<Rightarrow> False)"

definition PlanResponse_new :: "pystr \<Rightarrow> pyval list \<Rightarrow> exn + PlanResponse" where
  "PlanResponse_new short_msg acts =
     (if list_all is_dict acts
      then Inr \<lparr>assistant_message = Some short_msg, actions = acts\<rparr>
      else Inl (LibraryError (ustr ''validation error for PlanResponse'')))"

definition plan_finish ::
  "'t env \<Rightarrow> PlanRequest \<Rightarrow> pystr \<Rightarrow> pyval list \<Rightarrow> 't world \<Rightarrow> (exn + PlanResponse) \<times> 't world" where
  "plan_finish env req session_id captured w =
     (case (if captured = []
            then json_only_plan env session_id (plan_input req) (plan_context req) w
            else (Inr captured, w)) of
        (Inl e, w1) \<Rightarrow> (Inl e, w1)
      | (Inr acts, w1) \<Rightarrow>
          (let w2 = (if acts = []
                     then wtrace session_id (ustr ''step'') (PDict (step_msg ''synthesize.minimal'')) w1
                     else w1);
               acts = (if acts = [] then synthesize_minimal_action (plan_input req) else acts);
               w3 = wtrace session_id (ustr ''step'')
                      (PDict (step_msg ''planning.response'' @
                                [(ustr ''actions'', PInt (int (length acts)))])) w2
           in case build_assistant_message env (plan_input req) acts of
                Inl e \<Rightarrow> (Inl e, w3)
              | Inr short_msg \<Rightarrow>
                  (case PlanResponse_new short_msg acts of
                     Inl e \<Rightarrow> (Inl e, w3)
                   | Inr resp \<Rightarrow> (Inr resp, w3))))"

text \<open>
  \<^verbatim>\<open>
  @app.post("/invocations", response_model=PlanResponse)
  def plan_endpoint(req: PlanRequest):
      session_id = req.session_id or str(uuid.uuid4())
      try:
          user_text = req.input
          messages = [{"role": "user", "content": [{"text": user_text}]}]

          trace(session_id, "step", {"msg": "planning.start"})
          trace(session_id, "model.start", {"model": MODEL_ID, "phase": "plan"})

          assistant_chunks: List[str] = []
          capture = _ToolCapture()
          ...
          try:
              asyncio.get_event_loop().run_until_complete(asyncio.wait_for(_run_stream(), timeout=20))
          except Exception as stream_err:
              ...
          ...
      except Exception as e:
          trace(session_id, "error", {"where": "invocations", "message": str(e)})
          log.exception("Planner error")
          raise HTTPException(status_code=500, detail=str(e))
  \<close>
\<close>

definition plan_try ::
  "'t env \<Rightarrow> PlanRequest \<Rightarrow> pystr \<Rightarrow> 't world \<Rightarrow> (exn + PlanResponse) \<times> 't world" where
  "plan_try env req session_id w =
     (let messages = [user_message (plan_input req)];
          w = wtrace session_id (ustr ''step'') (PDict (step_msg ''planning.start'')) w;
          w = wtrace session_id (ustr ''model.start'')
                (PDict [(ustr ''model'', PStr (MODEL_ID env)), (ustr ''phase'', PStr (ustr ''plan''))]) w;
          s = \<lparr>assistant_chunks = [], capture = ToolCapture_init, the_world = w\<rparr>
      in case stream_or_fallback env session_id messages s of
           (Inl e, s') \<Rightarrow> (Inl e, the_world s')
         | (Inr u, s') \<Rightarrow>
             plan_finish env req session_id (capture_actions (capture s')) (the_world s'))"

definition or_str :: "pystr option \<Rightarrow> pystr \<Rightarrow> pystr" where
  "or_str s dflt = (case s of None \<Rightarrow> dflt | Some t \<Rightarrow> if t = [] then dflt else t)"

definition endpoint_error :: "string \<Rightarrow> exn \<Rightarrow> pyval" where
  "endpoint_error place e =
     PDict [(ustr ''where'', PStr (ustr place)), (ustr ''message'', PStr (exn_str e))]"

definition plan_endpoint ::
  "'t env \<Rightarrow> PlanRequest \<Rightarrow> 't world \<Rightarrow> (HTTPException + PlanResponse) \<times> 't world" where
  "plan_endpoint env req w =
     (let session_id = or_str (plan_session_id req) (uuid4 env) in
      case plan_try env req session_id w of
        (Inr resp, w') \<Rightarrow> (Inr resp, w')
      | (Inl e, w') \<Rightarrow>
          (Inl \<lparr>status_code = 500, detail = exn_str e\<rparr>,
           wtrace session_id (ustr ''error'') (endpoint_error ''invocations'' e) w'))"

section \<open>Chat endpoint\<close>

text \<open>
  \<^verbatim>\<open>
  class ChatSendRequest(BaseModel):
      session_id: Optional[str] = None
      user_input: str
      context: Optional[Dict[str, Any]] = None

  class ChatSendResponse(BaseModel):
      session_id: str
      assistant_output: str
      history_len: int

  def _get_history(session_id: str) -> List[Dict[str, Any]]:
      return _SESSIONS.setdefault(session_id, [])

  @app.post("/chat/send", response_model=ChatSendResponse)
  def chat_send(req: ChatSendRequest):
      try:
          session_id = req.session_id or _new_session_id()
          history = _get_history(session_id)

          messages = history + [{"role": "user", "content": [{"text": req.user_input}]}]
          trace(session_id, "model.start", {"model": MODEL_ID, "phase": "chat"})
          resp = brx.converse(CHAT_SYSTEM, messages)
          out = resp.get("output", {})
          content = out.get("message", {}).get("content", [])
          assistant_text = "\n".join([c.get("text", "") for c in content if c.get("text")]).strip() or "(no text output)"
          if len(assistant_text) > 220: assistant_text = assistant_text[:220].rstrip() + " ..."
          trace(session_id, "token", {"text": assistant_text})
          trace(session_id, "model.stop", {"phase": "chat"})

          history.append({"role": "user", "content": [{"text": req.user_input}]})
          history.append({"role": "assistant", "content": [{"text": assistant_text}]})
          _SESSIONS[session_id] = history

          return ChatSendResponse(session_id=session_id, assistant_output=assistant_text, history_len=len(history))
      except Exception as e:
          trace(req.session_id or "(no-session)", "error", {"where": "chat_send", "message": str(e)})
          log.exception("Chat error")
          raise HTTPException(status_code=500, detail=str(e))
  \<close>
  The suffix the source appends after the cut is a space and the single character
  U+2026 (8230).
\<close>

record ChatSendRequest =
  chat_session_id :: "pystr option"
  user_input :: pystr
  chat_context :: "pydict option"

record ChatSendResponse =
  session_id :: pystr
  assistant_output :: pystr
  history_len :: nat

text \<open>The two statements that turn the model's joined text into the reply.\<close>

definition assistant_text_of :: "pystr \<Rightarrow> pystr" where
  "assistant_text_of text =
     (let assistant_text = (if text \<noteq> [] then text else ustr ''(no text output)'')
      in if length assistant_text > 220
         then py_rstrip (take 220 assistant_text) @ [32, 8230]
         else assistant_text)"

definition assistant_message_of :: "pystr \<Rightarrow> pyval" where
  "assistant_message_of t =
     PDict [(ustr ''role'', PStr (ustr ''assistant'')),
            (ustr ''content'', PList [PDict [(ustr ''text'', PStr t)]])]"

definition chat_try ::
  "'t env \<Rightarrow> ChatSendRequest \<Rightarrow> 't world \<Rightarrow> (exn + ChatSendResponse) \<times> 't world" where
  "chat_try env req w =
     (let sid = or_str (chat_session_id req) (uuid4 env);
          history = (case SESSIONS w sid of Some h \<Rightarrow> h | None \<Rightarrow> []);
          w = w\<lparr>SESSIONS := (SESSIONS w)(sid \<mapsto> history)\<rparr>;
          messages = history @ [user_message (user_input req)];
          w = wtrace sid (ustr ''model.start'')
                (PDict [(ustr ''model'', PStr (MODEL_ID env)), (ustr ''phase'', PStr (ustr ''chat''))]) w
      in case converse env (PStr CHAT_SYSTEM) messages PNone PNone PNone (client w) of
           (Inl e, t) \<Rightarrow> (Inl e, w\<lparr>client := t\<rparr>)
         | (Inr resp, t) \<Rightarrow>
             (case response_content resp of
                Inl e \<Rightarrow> (Inl e, w\<lparr>client := t\<rparr>)
              | Inr content \<Rightarrow>
                  (case joined_text content of
                     Inl e \<Rightarrow> (Inl e, w\<lparr>client := t\<rparr>)
                   | Inr text \<Rightarrow>
                       (let assistant_text = assistant_text_of text;
                            w = wtrace sid (ustr ''token'') (PDict [(ustr ''text'', PStr assistant_text)])
                                  (w\<lparr>client := t\<rparr>);
                            w = wtrace sid (ustr ''model.stop'') (PDict [(ustr ''phase'', PStr (ustr ''chat''))]) w;
                            history = history @ [user_message (user_input req),
                                                 assistant_message_of assistant_text];
                            w = w\<lparr>SESSIONS := (SESSIONS w)(sid \<mapsto> history)\<rparr>
                        in (Inr \<lparr>session_id = sid, assistant_output = assistant_text,
                                  history_len = length history\<rparr>, w)))))"

definition chat_send ::
  "'t env \<Rightarrow> ChatSendRequest \<Rightarrow> 't world \<Rightarrow> (HTTPException + ChatSendResponse) \<times> 't world" where
  "chat_send env req w =
     (case chat_try env req w of
        (Inr resp, w') \<Rightarrow> (Inr resp, w')
      | (Inl e, w') \<Rightarrow>
          (Inl \<lparr>status_code = 500, detail = exn_str e\<rparr>,
           wtrace (or_str (chat_session_id req) (ustr ''(no-session)'')) (ustr ''error'')
             (endpoint_error ''chat_send'' e) w'))"

section \<open>An environment for examples\<close>

text \<open>
  A concrete world outside, to run the program on concrete inputs: a transport
  without state that answers every blocking call with \<open>resp\<close> and every streaming call
  with \<open>stream\<close>, a JSON parser \<open>loads\<close>, and a string and regular-expression library
  that lowers nothing, finds no match and substitutes nothing.
\<close>

definition example_env ::
  "(exn + pydict) \<Rightarrow> (exn + event_stream) \<Rightarrow> (pystr \<Rightarrow> exn + pyval) \<Rightarrow> unit env" where
  "example_env resp stream loads =
     \<lparr>MODEL_ID = ustr ''eu.amazon.nova-pro-v1:0'',
      uuid4 = ustr ''00000000-0000-4000-8000-000000000000'',
      client_converse = (\<lambda>req t. (resp, t)),
      client_converse_stream = (\<lambda>req t. (stream, t)),
      run_until_complete_error = None,
      json_loads = loads,
      str_lower = (\<lambda>s. s),
      re_search = (\<lambda>pattern flags s. None),
      re_sub = (\<lambda>pattern repl s. s)\<rparr>"

definition world_init :: "unit world" where
  "world_init = \<lparr>trace_bus = bus_init, SESSIONS = Map.empty, client = ()\<rparr>"

text \<open>A blocking response whose message holds one text part.\<close>

definition text_response :: "pystr \<Rightarrow> pydict" where
  "text_response t =
     [(ustr ''output'', PDict [(ustr ''message'',
        PDict [(ustr ''content'', PList [PDict [(ustr ''text'', PStr t)]])])])]"

text \<open>
  The transport library's message for a request with an unknown \<open>tools\<close> parameter,
  the same for \<open>toolConfig\<close>, and a transport that rejects every request carrying
  \<open>tools\<close> and answers the others with \<open>resp\<close>.
\<close>

definition tools_rejection :: pystr where
  \<open>tools_rejection = ustr (''Parameter validation failed:\<newline>'' @
     ''Unknown parameter in input: "tools", must be one of: modelId, messages, system, inferenceConfig, toolConfig'')\<close>

definition toolConfig_rejection :: pystr where
  \<open>toolConfig_rejection = ustr (''Parameter validation failed:\<newline>'' @
     ''Unknown parameter in input: "toolConfig", must be one of: modelId, messages, system, inferenceConfig'')\<close>

definition rejects_tools :: "pydict \<Rightarrow> pydict \<Rightarrow> unit \<Rightarrow> (exn + pydict) \<times> unit" where
  "rejects_tools resp req t =
     (if map_of req (ustr ''tools'') \<noteq> None then (Inl (ParamValidationError tools_rejection), t)
      else (Inr resp, t))"

definition rejects_toolConfig :: "pydict \<Rightarrow> unit \<Rightarrow> (exn + pydict) \<times> unit" where
  "rejects_toolConfig req t = (Inl (ParamValidationError toolConfig_rejection), t)"

definition example_request :: pydict where
  "example_request =
     [(ustr ''modelId'', PStr (ustr ''eu.amazon.nova-pro-v1:0'')),
      (ustr ''messages'', PList [user_message (ustr ''hi'')]),
      (ustr ''tools'', EMIT_PLAN_TOOL),
      (ustr ''toolConfig'', PDict [(ustr ''toolChoice'', PDict [(ustr ''auto'', PDict [])])])]"

text \<open>
  Model outputs for the examples: a plan whose one action has no \<open>type\<close>, as text and
  as the value the JSON parser gives for it; a library failure standing for a stream
  that times out, and one for text that is not JSON.
\<close>

definition untyped_plan_text :: pystr where
  \<open>untyped_plan_text = ustr ''{"actions":[{"path":"a.txt"}]}''\<close>

definition untyped_plan :: pyval where
  "untyped_plan = PDict [(ustr ''actions'', PList [PDict [(ustr ''path'', PStr (ustr ''a.txt''))]])]"

definition timed_out :: "exn + event_stream" where
  "timed_out = Inl (LibraryError (ustr ''Read timed out''))"

definition not_json :: "pystr \<Rightarrow> exn + pyval" where
  "not_json s = Inl (LibraryError (ustr ''Expecting value: line 1 column 1 (char 0)''))"

definition plan_request :: "string \<Rightarrow> PlanRequest" where
  "plan_request t = \<lparr>plan_input = ustr t, plan_context = None, plan_session_id = Some (ustr ''s'')\<rparr>"

section \<open>Proofs: tool-call capture\<close>

lemma absorb_step:
  "snd (absorb part self) =
     (case qualifying_actions part of None \<Rightarrow> self | Some acts \<Rightarrow> self\<lparr>capture_actions := acts\<rparr>)"
  by (cases part)
     (auto simp: absorb_def qualifying_actions_def dict_get_def Let_def
           split: option.splits pyval.splits sum.splits list.splits)

lemma last_qualifying_Cons:
  "last_qualifying (part # parts) =
     (case last_qualifying parts of Some acts \<Rightarrow> Some acts | None \<Rightarrow> qualifying_actions part)"
  by (cases "qualifying_actions part")
     (auto simp: last_qualifying_def List.map_filter_simps split: list.splits option.splits)

lemma absorb_all_last:
  "capture_actions (absorb_all parts self) =
     (case last_qualifying parts of None \<Rightarrow> capture_actions self | Some acts \<Rightarrow> acts)"
proof (induction parts arbitrary: self)
  case Nil
  show ?case by (simp add: last_qualifying_def List.map_filter_simps)
next
  case (Cons part parts)
  show ?case
    by (simp add: Cons.IH last_qualifying_Cons absorb_step split: option.splits)
qed

text \<open>
  C2. Tool-call capture accepts a part exactly when the part qualifies (its tool
  invocation carries a mapping input whose \<open>actions\<close> field holds a list), and then
  replaces the captured list by that field; any other part, also one on which the
  call raises, leaves the captured list as it was. So after any sequence of parts the
  captured list is the \<open>actions\<close> field of the last qualifying part, not a merge,
  and the list held before if no part qualifies.
\<close>

theorem tool_capture_last_wins:
  "snd (absorb part self) =
     (case qualifying_actions part of
        None \<Rightarrow> self
      | Some acts \<Rightarrow> self\<lparr>capture_actions := acts\<rparr>) \<and>
   capture_actions (absorb_all parts self) =
     (case last_qualifying parts of
        None \<Rightarrow> capture_actions self
      | Some acts \<Rightarrow> acts)"
  by (simp only: absorb_step absorb_all_last)

section \<open>Proofs: context snapshot builder\<close>

lemma blob_loop_stop:
  "budget - used - int (length (file_header rel)) \<le> 0 \<Longrightarrow>
   blob_loop ((rel, src) # files) budget chunks used = Inr chunks"
  by (simp add: Let_def max_def)

lemma blob_loop_last:
  "0 < budget - used - int (length (file_header rel)) \<Longrightarrow>
   body = (if int (length s) \<le> budget - used - int (length (file_header rel)) then s
           else take (nat (budget - used - int (length (file_header rel)))) s) \<Longrightarrow>
   budget \<le> used + (int (length (file_header rel)) + int (length body)) \<Longrightarrow>
   blob_loop ((rel, PStr s) # files) budget chunks used = Inr (chunks @ [file_header rel @ body])"
  by (auto simp: Let_def max_def min_def split: if_splits)

lemma blob_loop_next:
  "0 < budget - used - int (length (file_header rel)) \<Longrightarrow>
   body = (if int (length s) \<le> budget - used - int (length (file_header rel)) then s
           else take (nat (budget - used - int (length (file_header rel)))) s) \<Longrightarrow>
   \<not> budget \<le> used + (int (length (file_header rel)) + int (length body)) \<Longrightarrow>
   blob_loop ((rel, PStr s) # files) budget chunks used =
     blob_loop files budget (chunks @ [file_header rel @ body])
       (used + (int (length (file_header rel)) + int (length body)))"
  by (auto simp: Let_def max_def min_def split: if_splits)

lemma blob_loop_inv:
  "0 \<le> used \<Longrightarrow> used \<le> budget \<Longrightarrow>
   \<exists>new. blob_loop (str_files fs) budget chunks used = Inr (chunks @ new) \<and>
         used + int (length (concat new)) \<le> budget \<and>
         only_last_truncated fs new"
proof (induction fs arbitrary: chunks used)
  case Nil
  then show ?case by (simp add: str_files_def)
next
  case (Cons f fs)
  obtain rel src where f: "f = (rel, src)" by (cases f)
  have sf: "str_files (f # fs) = (rel, PStr src) # str_files fs"
    by (simp add: str_files_def f)
  define h where "h = file_header rel"
  define room where "room = budget - used - int (length h)"
  show ?case
  proof (cases "room \<le> 0")
    case True
    then have "blob_loop (str_files (f # fs)) budget chunks used = Inr chunks"
      unfolding sf room_def h_def by (rule blob_loop_stop)
    then show ?thesis using Cons.prems by simp
  next
    case False
    then have pos: "0 < budget - used - int (length (file_header rel))"
      by (simp add: room_def h_def)
    define body where "body = (if int (length src) \<le> room then src else take (nat room) src)"
    have bdef: "body = (if int (length src) \<le> budget - used - int (length (file_header rel)) then src
           else take (nat (budget - used - int (length (file_header rel)))) src)"
      by (simp add: body_def room_def h_def)
    have blen: "int (length body) \<le> room" using False by (auto simp: body_def)
    have bpre: "take (length body) src = body" using False by (auto simp: body_def)
    define used' where "used' = used + (int (length h) + int (length body))"
    have u': "used' \<le> budget" "0 \<le> used'"
      using blen Cons.prems by (auto simp: used'_def room_def)
    show ?thesis
    proof (cases "budget \<le> used'")
      case True
      then have "budget \<le> used + (int (length (file_header rel)) + int (length body))"
        by (simp add: used'_def h_def)
      from blob_loop_last[OF pos bdef this]
      have "blob_loop (str_files (f # fs)) budget chunks used = Inr (chunks @ [h @ body])"
        by (simp add: sf h_def)
      moreover have "used + int (length (concat [h @ body])) \<le> budget"
        using u' by (simp add: used'_def)
      moreover have "only_last_truncated (f # fs) [h @ body]"
        by (simp add: f h_def[symmetric] Let_def bpre)
      ultimately show ?thesis by blast
    next
      case nb: False
      then have nb': "\<not> budget \<le> used + (int (length (file_header rel)) + int (length body))"
        by (simp add: used'_def h_def)
      from Cons.IH[OF u'(2) u'(1), of "chunks @ [h @ body]"]
      obtain new where new:
        "blob_loop (str_files fs) budget (chunks @ [h @ body]) used' = Inr ((chunks @ [h @ body]) @ new)"
        "used' + int (length (concat new)) \<le> budget" "only_last_truncated fs new"
        by blast
      have full: "body = src"
      proof (rule ccontr)
        assume "body \<noteq> src"
        then have "\<not> int (length src) \<le> room" and "body = take (nat room) src"
          by (auto simp: body_def)
        then have "int (length body) = room" using False by auto
        then show False using nb by (simp add: used'_def room_def)
      qed
      from blob_loop_next[OF pos bdef nb']
      have "blob_loop (str_files (f # fs)) budget chunks used = Inr (chunks @ ((h @ body) # new))"
        using new(1) by (simp add: sf h_def used'_def)
      moreover have "used + int (length (concat ((h @ body) # new))) \<le> budget"
        using new(2) by (simp add: used'_def)
      moreover have "only_last_truncated (f # fs) ((h @ body) # new)"
        using new(3) by (simp add: f h_def[symmetric] Let_def bpre full)
      ultimately show ?thesis by blast
    qed
  qed
qed

lemma only_last_truncated_length:
  "only_last_truncated fs cs \<Longrightarrow> length cs \<le> length fs"
  by (induction fs cs rule: only_last_truncated.induct) (auto simp: Let_def)

lemma total_size_nonneg: "0 \<le> total_size fs"
  by (induction fs) (auto simp: total_size_def)

lemma blob_loop_full:
  "0 \<le> used \<Longrightarrow> used + total_size fs < budget \<Longrightarrow>
   blob_loop (str_files fs) budget chunks used =
     Inr (chunks @ map (\<lambda>(rel, src). file_header rel @ src) fs)"
proof (induction fs arbitrary: chunks used)
  case Nil
  then show ?case by (simp add: str_files_def)
next
  case (Cons f fs)
  obtain rel src where f: "f = (rel, src)" by (cases f)
  have sf: "str_files (f # fs) = (rel, PStr src) # str_files fs"
    by (simp add: str_files_def f)
  define used' where "used' = used + (int (length (file_header rel)) + int (length src))"
  have ts: "total_size (f # fs) = int (length (file_header rel)) + int (length src) + total_size fs"
    by (simp add: total_size_def f)
  have nn: "0 \<le> total_size fs" by (rule total_size_nonneg)
  have a: "0 \<le> used'" "used' + total_size fs < budget" "used' < budget"
    using Cons.prems nn by (auto simp: used'_def ts)
  have pos: "0 < budget - used - int (length (file_header rel))"
    using a(3) by (simp add: used'_def)
  have bdef: "src = (if int (length src) \<le> budget - used - int (length (file_header rel)) then src
           else take (nat (budget - used - int (length (file_header rel)))) src)"
    using a(3) by (simp add: used'_def)
  have nb: "\<not> budget \<le> used + (int (length (file_header rel)) + int (length src))"
    using a(3) by (simp add: used'_def)
  from blob_loop_next[OF pos bdef nb]
  have "blob_loop (str_files (f # fs)) budget chunks used =
          blob_loop (str_files fs) budget (chunks @ [file_header rel @ src]) used'"
    by (simp add: sf used'_def)
  then show ?case using Cons.IH[OF a(1) a(2)] by (simp add: f)
qed

text \<open>
  C6. For a mapping from file path to contents and a character budget (a count of
  characters, so not below zero), the snapshot builder returns a string no longer than
  the budget. The string is the concatenation of chunks, one per file in the mapping's
  order from the first file on: each chunk is the file's header followed by a body
  taken from the front of the file's contents, only the last chunk's body may be cut
  short, and the files after the last chunk are left out altogether.
\<close>

theorem context_blob_within_budget:
  assumes "0 \<le> char_budget"
    and "map_of ctx (ustr ''files'') = Some (PDict (str_files fs))"
  shows "\<exists>chunks. context_blob (Some ctx) char_budget = Inr (concat chunks) \<and>
           int (length (concat chunks)) \<le> char_budget \<and>
           only_last_truncated fs chunks \<and> length chunks \<le> length fs"
proof -
  from blob_loop_inv[of 0 char_budget fs "[]"] assms(1)
  obtain new where new: "blob_loop (str_files fs) char_budget [] 0 = Inr new"
    "int (length (concat new)) \<le> char_budget" "only_last_truncated fs new"
    by auto
  have "context_blob (Some ctx) char_budget = Inr (concat new)"
    by (simp add: context_blob_def assms(2) new(1))
  with new(2,3) only_last_truncated_length[OF new(3)] show ?thesis by blast
qed

theorem context_blob_within_budget_witness:
  "(0::int) \<le> 20 \<and>
   map_of [(ustr ''files'', PDict (str_files [(ustr ''a'', ustr ''hello''), (ustr ''b'', ustr ''world'')]))]
     (ustr ''files'') =
     Some (PDict (str_files [(ustr ''a'', ustr ''hello''), (ustr ''b'', ustr ''world'')])) \<and>
   (\<exists>chunks.
      context_blob
        (Some [(ustr ''files'', PDict (str_files [(ustr ''a'', ustr ''hello''), (ustr ''b'', ustr ''world'')]))])
        20 = Inr (concat chunks) \<and>
      int (length (concat chunks)) \<le> 20 \<and>
      only_last_truncated [(ustr ''a'', ustr ''hello''), (ustr ''b'', ustr ''world'')] chunks \<and>
      length chunks \<le> length [(ustr ''a'', ustr ''hello''), (ustr ''b'', ustr ''world'')]) \<and>
   context_blob
     (Some [(ustr ''files'', PDict (str_files [(ustr ''a'', ustr ''hello''), (ustr ''b'', ustr ''world'')]))])
     20 = Inr (file_header (ustr ''a'') @ ustr ''hel'')"
proof -
  have h1: "(0::int) \<le> 20" by simp
  have h2: "map_of [(ustr ''files'', PDict (str_files [(ustr ''a'', ustr ''hello''), (ustr ''b'', ustr ''world'')]))]
     (ustr ''files'') =
     Some (PDict (str_files [(ustr ''a'', ustr ''hello''), (ustr ''b'', ustr ''world'')]))"
    by simp
  have v: "context_blob
     (Some [(ustr ''files'', PDict (str_files [(ustr ''a'', ustr ''hello''), (ustr ''b'', ustr ''world'')]))])
     20 = Inr (file_header (ustr ''a'') @ ustr ''hel'')"
    by (simp add: context_blob_def str_files_def file_header_def ustr_def Let_def)
  from context_blob_within_budget[OF h1 h2] h1 h2 v show ?thesis by blast
qed

text \<open>
  C7. For a mapping whose total size, all headers plus all bodies, is smaller than
  the budget, the snapshot is every file's header followed by its whole contents, file
  after file in the mapping's order: nothing is cut and nothing is left out.
\<close>

theorem context_blob_roundtrip:
  assumes "total_size fs < char_budget"
    and "map_of ctx (ustr ''files'') = Some (PDict (str_files fs))"
  shows "context_blob (Some ctx) char_budget =
           Inr (concat (map (\<lambda>(rel, src). file_header rel @ src) fs))"
proof -
  have "blob_loop (str_files fs) char_budget [] 0 =
          Inr ([] @ map (\<lambda>(rel, src). file_header rel @ src) fs)"
    by (rule blob_loop_full) (use assms(1) in simp_all)
  then show ?thesis by (simp add: context_blob_def assms(2))
qed

theorem context_blob_roundtrip_witness:
  "total_size [(ustr ''a'', ustr ''hello''), (ustr ''b'', ustr ''world'')] < 10000 \<and>
   map_of [(ustr ''files'', PDict (str_files [(ustr ''a'', ustr ''hello''), (ustr ''b'', ustr ''world'')]))]
     (ustr ''files'') =
     Some (PDict (str_files [(ustr ''a'', ustr ''hello''), (ustr ''b'', ustr ''world'')])) \<and>
   context_blob
     (Some [(ustr ''files'', PDict (str_files [(ustr ''a'', ustr ''hello''), (ustr ''b'', ustr ''world'')]))])
     10000 =
     Inr (file_header (ustr ''a'') @ ustr ''hello'' @ file_header (ustr ''b'') @ ustr ''world'')"
proof -
  have h1: "total_size [(ustr ''a'', ustr ''hello''), (ustr ''b'', ustr ''world'')] < 10000"
    by (simp add: total_size_def file_header_def ustr_def)
  have h2: "map_of [(ustr ''files'', PDict (str_files [(ustr ''a'', ustr ''hello''), (ustr ''b'', ustr ''world'')]))]
     (ustr ''files'') =
     Some (PDict (str_files [(ustr ''a'', ustr ''hello''), (ustr ''b'', ustr ''world'')]))"
    by simp
  from context_blob_roundtrip[OF h1 h2] h1 h2 show ?thesis by simp
qed

section \<open>Proofs: minimal-action synthesizer\<close>

lemma str_replace1_append:
  "str_replace1 c new (a @ b) = str_replace1 c new a @ str_replace1 c new b"
  by (simp add: str_replace1_def)

lemma safe_text_chars: "safe_text t = concat (map escape_angle t)"
proof (induction t)
  case Nil
  show ?case by (simp add: safe_text_def str_replace1_def)
next
  case (Cons c t)
  have "safe_text (c # t) =
          str_replace1 62 (ustr ''&gt;'') (if c = 60 then ustr ''&lt;'' else [c]) @ safe_text t"
    by (simp add: safe_text_def str_replace1_def)
  moreover have "str_replace1 62 (ustr ''&gt;'') (if c = 60 then ustr ''&lt;'' else [c]) = escape_angle c"
    by (simp add: str_replace1_def escape_angle_def ustr_def)
  ultimately show ?case using Cons.IH by simp
qed

lemma escape_angle_no_angle:
  "60 \<notin> set (concat (map escape_angle t)) \<and> 62 \<notin> set (concat (map escape_angle t))"
  by (induction t) (auto simp: escape_angle_def ustr_def)

text \<open>
  C8, as amended. For every user text the synthesizer returns exactly one action, of
  type \<open>update_file\<close>, on the fixed path \<open>app/page.tsx\<close>, whose contents are the
  fixed page around the user text with every \<open><\<close> replaced by \<open>&lt;\<close> and every
  \<open>>\<close> by \<open>&gt;\<close>, so that no angle bracket of the user text is left; every other
  character is embedded as it is. The function is total: it cannot fail.
\<close>

theorem synthesize_minimal_action_result:
  "synthesize_minimal_action user_text =
     [PDict [(ustr ''type'', PStr (ustr ''update_file'')),
             (ustr ''path'', PStr (ustr ''app/page.tsx'')),
             (ustr ''contents'', PStr (tsx_head @ concat (map escape_angle user_text) @ tsx_tail))]] \<and>
   60 \<notin> set (concat (map escape_angle user_text)) \<and>
   62 \<notin> set (concat (map escape_angle user_text))"
proof (intro conjI)
  show "synthesize_minimal_action user_text =
     [PDict [(ustr ''type'', PStr (ustr ''update_file'')),
             (ustr ''path'', PStr (ustr ''app/page.tsx'')),
             (ustr ''contents'', PStr (tsx_head @ concat (map escape_angle user_text) @ tsx_tail))]]"
    by (simp add: synthesize_minimal_action_def safe_text_chars)
  show "60 \<notin> set (concat (map escape_angle user_text))"
    by (rule escape_angle_no_angle[THEN conjunct1])
  show "62 \<notin> set (concat (map escape_angle user_text))"
    by (rule escape_angle_no_angle[THEN conjunct2])
qed

text \<open>
  C8 as stated fails: the ampersand is significant in HTML, and the synthesizer embeds
  it as it is. The user texts \<open>&lt;\<close> and \<open><\<close> then give the same page, so the
  page does not tell which of them the user wrote.
\<close>

theorem synthesize_keeps_ampersand:
  "html_significant 38 \<and>
   synthesize_minimal_action [38] =
     [PDict [(ustr ''type'', PStr (ustr ''update_file'')),
             (ustr ''path'', PStr (ustr ''app/page.tsx'')),
             (ustr ''contents'', PStr (tsx_head @ [38] @ tsx_tail))]] \<and>
   synthesize_minimal_action (ustr ''&lt;'') = synthesize_minimal_action (ustr ''<'')"
  by (simp add: html_significant_def synthesize_minimal_action_def safe_text_def
        str_replace1_def ustr_def)

section \<open>Proofs: trace bus\<close>

lemma queued_trace:
  "queued sid (trace sid kind payload b) = queued sid b @ [(kind, payload)]"
  by (simp add: queued_def trace_def get_queue_def Let_def split: option.splits)

lemma trace_stream_takes_queue:
  "trace_stream sid b = (g0, b') \<Longrightarrow>
   sub_session g0 = sid \<and> sub_at g0 = NotStarted \<and>
   queue_store b' (sub_queue g0) = queued sid b \<and> SESSION_QUEUES b' sid = Some (sub_queue g0)"
  by (auto simp: trace_stream_def get_queue_def queued_def Let_def split: option.splits)

lemma gen_next_fifo:
  "sub_at g = AtHello \<or> sub_at g = InLoop \<Longrightarrow>
   queue_store b (sub_queue g) = (kind, payload) # rest \<Longrightarrow>
   gen_next g b =
     (Some (Event kind payload), g\<lparr>sub_at := InLoop\<rparr>,
      b\<lparr>queue_store := (queue_store b)(sub_queue g := rest)\<rparr>)"
  by (auto simp: gen_next_def)

lemma gen_close_in_loop:
  "sub_at g = InLoop \<Longrightarrow>
   SESSION_QUEUES (snd (gen_close g b)) (sub_session g) = None \<and>
   queued (sub_session g) (snd (gen_close g b)) = []"
  by (simp add: gen_close_def queued_def)

lemma gen_close_while_waiting:
  "sub_at g = AtHello \<Longrightarrow>
   SESSION_QUEUES (snd (gen_close (gen_await g) b)) (sub_session g) = None"
  by (simp add: gen_close_def gen_await_def)

lemma gen_close_before_loop:
  "sub_at early = NotStarted \<or> sub_at early = AtHello \<Longrightarrow> snd (gen_close early b) = b"
  by (auto simp: gen_close_def)

lemma fresh_after_close:
  "bus_ok b \<Longrightarrow> sub_at g = InLoop \<Longrightarrow> SESSION_QUEUES b (sub_session g) = Some q \<Longrightarrow>
   sub_queue (fst (trace_stream (sub_session g) (snd (gen_close g b)))) \<noteq> q"
  by (auto simp: bus_ok_def trace_stream_def get_queue_def gen_close_def Let_def)

text \<open>
  C4, as amended. A push appends the event to the session's queue, which it creates
  when the session has none; a subscriber that connects takes the session's queue with
  the events waiting in it, those pushed before it connected included, and is sent
  them oldest first once it is past the \<open>hello\<close> frame. Tearing down a subscriber
  that is in its loop removes the session's queue from the registry with whatever it
  still holds, and a subscription after that gets a queue other than the removed one.
  Tearing down a subscriber that has not started or stands at the \<open>hello\<close> frame
  leaves the bus as it is: the queue stays registered with its events.
\<close>

theorem trace_bus_buffers_until_teardown:
  "queued sid (trace sid kind payload b) = queued sid b @ [(kind, payload)] \<and>
   (trace_stream sid b = (g0, b') \<longrightarrow>
      sub_session g0 = sid \<and> sub_at g0 = NotStarted \<and>
      queue_store b' (sub_queue g0) = queued sid b \<and> SESSION_QUEUES b' sid = Some (sub_queue g0)) \<and>
   ((sub_at g = AtHello \<or> sub_at g = InLoop) \<and>
    queue_store b (sub_queue g) = (kind, payload) # rest \<longrightarrow>
      gen_next g b =
        (Some (Event kind payload), g\<lparr>sub_at := InLoop\<rparr>,
         b\<lparr>queue_store := (queue_store b)(sub_queue g := rest)\<rparr>)) \<and>
   (sub_at g = InLoop \<longrightarrow>
      SESSION_QUEUES (snd (gen_close g b)) (sub_session g) = None \<and>
      queued (sub_session g) (snd (gen_close g b)) = []) \<and>
   (sub_at early = NotStarted \<or> sub_at early = AtHello \<longrightarrow> snd (gen_close early b) = b) \<and>
   (bus_ok b \<and> sub_at g = InLoop \<and> SESSION_QUEUES b (sub_session g) = Some q \<longrightarrow>
      sub_queue (fst (trace_stream (sub_session g) (snd (gen_close g b)))) \<noteq> q)"
  using queued_trace[of sid kind payload b] trace_stream_takes_queue[of sid b g0 b']
    gen_next_fifo[of g b kind payload rest] gen_close_in_loop[of g b]
    gen_close_before_loop[of early b] fresh_after_close[of b g q]
  by blast

text \<open>
  C4 as stated fails: an event pushed before the subscriber connects is the first
  event the subscriber is sent, on a new bus and also after an earlier subscriber of
  the session has disconnected, where the claim has the event dropped.
\<close>

theorem trace_bus_replays_buffered:
  "delivered_on_connect (ustr ''s'') (ustr ''step'') (PDict []) bus_init =
     Some (Event (ustr ''step'') (PDict [])) \<and>
   delivered_on_connect (ustr ''s'') (ustr ''step'') (PDict [])
     (subscriber_came_and_went (ustr ''s'') bus_init) =
     Some (Event (ustr ''step'') (PDict []))"
  by (simp add: delivered_on_connect_def subscriber_came_and_went_def trace_stream_def trace_def
        get_queue_def gen_next_def gen_close_def bus_init_def Let_def)

text \<open>
  The amended claim on a bus where one event was pushed to session \<open>s\<close> before anyone
  connected: a subscriber in its loop is sent the event, and its teardown removes the
  queue; a subscriber torn down at the \<open>hello\<close> frame leaves the event queued.
\<close>

theorem trace_bus_buffers_until_teardown_witness:
  "trace_stream (ustr ''s'') (trace (ustr ''s'') (ustr ''step'') (PDict []) bus_init) =
     (\<lparr>sub_session = ustr ''s'', sub_queue = 0, sub_at = NotStarted\<rparr>,
      trace (ustr ''s'') (ustr ''step'') (PDict []) bus_init) \<and>
   queue_store (trace (ustr ''s'') (ustr ''step'') (PDict []) bus_init) 0 =
     [(ustr ''step'', PDict [])] \<and>
   bus_ok (trace (ustr ''s'') (ustr ''step'') (PDict []) bus_init) \<and>
   SESSION_QUEUES (trace (ustr ''s'') (ustr ''step'') (PDict []) bus_init) (ustr ''s'') = Some 0 \<and>
   queued (ustr ''s'') (trace (ustr ''s'') (ustr ''step'') (PDict []) bus_init) =
     [(ustr ''step'', PDict [])] \<and>
   fst (gen_next \<lparr>sub_session = ustr ''s'', sub_queue = 0, sub_at = InLoop\<rparr>
          (trace (ustr ''s'') (ustr ''step'') (PDict []) bus_init)) =
     Some (Event (ustr ''step'') (PDict [])) \<and>
   queued (ustr ''s'')
     (snd (gen_close \<lparr>sub_session = ustr ''s'', sub_queue = 0, sub_at = InLoop\<rparr>
             (trace (ustr ''s'') (ustr ''step'') (PDict []) bus_init))) = [] \<and>
   queued (ustr ''s'')
     (snd (gen_close \<lparr>sub_session = ustr ''s'', sub_queue = 0, sub_at = AtHello\<rparr>
             (trace (ustr ''s'') (ustr ''step'') (PDict []) bus_init))) =
     [(ustr ''step'', PDict [])] \<and>
   sub_queue (fst (trace_stream (ustr ''s'')
      (snd (gen_close \<lparr>sub_session = ustr ''s'', sub_queue = 0, sub_at = InLoop\<rparr>
              (trace (ustr ''s'') (ustr ''step'') (PDict []) bus_init))))) \<noteq> 0"
proof -
  define B where "B = trace (ustr ''s'') (ustr ''step'') (PDict []) bus_init"
  define G0 where "G0 = \<lparr>sub_session = ustr ''s'', sub_queue = 0, sub_at = NotStarted\<rparr>"
  define G where "G = \<lparr>sub_session = ustr ''s'', sub_queue = 0, sub_at = InLoop\<rparr>"
  define H where "H = \<lparr>sub_session = ustr ''s'', sub_queue = 0, sub_at = AtHello\<rparr>"
  have h1: "trace_stream (ustr ''s'') B = (G0, B)"
    by (simp add: B_def G0_def trace_stream_def trace_def get_queue_def bus_init_def Let_def)
  have h2: "queue_store B (sub_queue G) = (ustr ''step'', PDict []) # []"
    by (simp add: B_def G_def trace_def get_queue_def bus_init_def Let_def)
  have h3: "bus_ok B \<and> SESSION_QUEUES B (sub_session G) = Some 0"
    by (simp add: B_def G_def bus_ok_def trace_def get_queue_def bus_init_def Let_def)
  have h4: "sub_at G = InLoop" "sub_at H = AtHello" "sub_session G = ustr ''s''" "sub_queue G = 0"
    by (simp_all add: G_def H_def)
  have q0: "queued (ustr ''s'') bus_init = []"
    by (simp add: queued_def bus_init_def)
  from trace_bus_buffers_until_teardown[of "ustr ''s''" "ustr ''step''" "PDict []" B G0 B G "[]" H 0]
    trace_bus_buffers_until_teardown[of "ustr ''s''" "ustr ''step''" "PDict []" bus_init G0 B G "[]" H 0]
    h1 h2 h3 h4 q0
  show ?thesis unfolding B_def[symmetric] G0_def[symmetric] G_def[symmetric] H_def[symmetric]
    by simp
qed

section \<open>Proofs: model gateway\<close>

lemma without_tools_keys:
  "map_of (without_tools req) (ustr ''tools'') = None \<and>
   map_of (without_tools req) (ustr ''toolConfig'') = None \<and>
   (k \<noteq> ustr ''tools'' \<and> k \<noteq> ustr ''toolConfig'' \<longrightarrow>
      map_of (without_tools req) k = map_of req k)"
  by (induction req) (auto simp: without_tools_def dict_pop_def)

lemma retry_logged:
  "retry_without_tools_if_needed (logged fn) req ([], t) =
     (case fn req t of
        (Inl (ParamValidationError msg), t1) \<Rightarrow>
          if names_tools msg
          then (case fn (without_tools req) t1 of (r2, t2) \<Rightarrow> (r2, ([req, without_tools req], t2)))
          else (Inl (ParamValidationError msg), ([req], t1))
      | (r, t1) \<Rightarrow> (r, ([req], t1)))"
  by (simp add: retry_without_tools_if_needed_def logged_def
           split: prod.splits sum.splits exn.splits)

text \<open>
  C5, as amended. When the transport rejects a request with a parameter-validation
  failure whose message names the \<open>tools\<close> field as unknown, the gateway submits the
  request once more, without its \<open>tools\<close> and \<open>toolConfig\<close> entries and otherwise
  unchanged, and whatever the second submission gives is the result. In every other
  case the request is submitted once and the transport's response or exception is
  the result, unchanged.
\<close>

theorem gateway_retries_once_without_tools:
  "retry_without_tools_if_needed (logged fn) req ([], t) =
     (case fn req t of
        (Inl (ParamValidationError msg), t1) \<Rightarrow>
          if names_tools msg
          then (case fn (without_tools req) t1 of (r2, t2) \<Rightarrow> (r2, ([req, without_tools req], t2)))
          else (Inl (ParamValidationError msg), ([req], t1))
      | (r, t1) \<Rightarrow> (r, ([req], t1))) \<and>
   map_of (without_tools req) (ustr ''tools'') = None \<and>
   map_of (without_tools req) (ustr ''toolConfig'') = None \<and>
   (k \<noteq> ustr ''tools'' \<and> k \<noteq> ustr ''toolConfig'' \<longrightarrow>
      map_of (without_tools req) k = map_of req k)"
  using retry_logged[of fn req t] without_tools_keys[of req k] by simp


text \<open>
  The amended claim on a transport that rejects \<open>tools\<close>: two submissions, the second
  without the two entries, and the model id kept.
\<close>

theorem gateway_retries_once_without_tools_witness:
  "retry_without_tools_if_needed (logged (rejects_tools (text_response (ustr ''ok''))))
     example_request ([], ()) =
     (Inr (text_response (ustr ''ok'')), ([example_request, without_tools example_request], ())) \<and>
   ustr ''modelId'' \<noteq> ustr ''tools'' \<and> ustr ''modelId'' \<noteq> ustr ''toolConfig'' \<and>
   map_of (without_tools example_request) (ustr ''tools'') = None \<and>
   map_of (without_tools example_request) (ustr ''toolConfig'') = None \<and>
   map_of (without_tools example_request) (ustr ''modelId'') =
     map_of example_request (ustr ''modelId'')"
proof -
  have n: "names_tools tools_rejection"
    by (simp add: names_tools_def tools_rejection_def ustr_def)
  have k: "ustr ''modelId'' \<noteq> ustr ''tools'' \<and> ustr ''modelId'' \<noteq> ustr ''toolConfig''"
    by (simp add: ustr_def)
  have f1: "rejects_tools (text_response (ustr ''ok'')) example_request () =
              (Inl (ParamValidationError tools_rejection), ())"
    by (simp add: rejects_tools_def example_request_def)
  have f2: "rejects_tools (text_response (ustr ''ok'')) (without_tools example_request) () =
              (Inr (text_response (ustr ''ok'')), ())"
    by (simp add: rejects_tools_def example_request_def without_tools_def dict_pop_def ustr_def)
  from gateway_retries_once_without_tools
         [of "rejects_tools (text_response (ustr ''ok''))" example_request "()" "ustr ''modelId''"]
    n k f1 f2
  show ?thesis by simp
qed

text \<open>
  C5 as stated fails: a parameter-validation failure that names \<open>toolConfig\<close> as
  the unknown field is not retried; the request is submitted once and the failure
  reaches the caller.
\<close>

theorem gateway_no_retry_for_toolConfig:
  "names_tools_or_toolConfig toolConfig_rejection \<and>
   retry_without_tools_if_needed (logged rejects_toolConfig) example_request ([], ()) =
     (Inl (ParamValidationError toolConfig_rejection), ([example_request], ()))"
proof -
  have a: "names_tools_or_toolConfig toolConfig_rejection"
    by (simp add: names_tools_or_toolConfig_def toolConfig_rejection_def ustr_def)
  have b: "\<not> names_tools toolConfig_rejection"
    by (simp add: names_tools_def toolConfig_rejection_def ustr_def)
  show ?thesis
    using a b
    by (simp add: retry_without_tools_if_needed_def logged_def rejects_toolConfig_def)
qed

section \<open>Proofs: chat endpoint\<close>

lemma length_py_rstrip: "length (py_rstrip s) \<le> length s"
  using length_dropWhile_le[of py_isspace "rev s"] by (simp add: py_rstrip_def)

lemma length_assistant_text_of: "length (assistant_text_of text) \<le> 222"
proof -
  have "length (py_rstrip (take 220 s)) \<le> 220" for s :: pystr
    using length_py_rstrip[of "take 220 s"] by simp
  then show ?thesis
    by (auto simp: assistant_text_of_def Let_def)
qed

lemma assistant_text_of_long:
  "length text > 220 \<Longrightarrow> assistant_text_of text = py_rstrip (take 220 text) @ [32, 8230]"
  by (auto simp: assistant_text_of_def Let_def)

lemma assistant_text_of_short:
  "text \<noteq> [] \<Longrightarrow> length text \<le> 220 \<Longrightarrow> assistant_text_of text = text"
  by (auto simp: assistant_text_of_def Let_def)

lemma chat_send_output:
  "chat_send env req w = (Inr resp, w') \<Longrightarrow> \<exists>text. assistant_output resp = assistant_text_of text"
  by (auto simp: chat_send_def chat_try_def Let_def split: prod.splits sum.splits)


lemma chat_send_source:
  "chat_send env req w = (Inr resp, w') \<Longrightarrow>
   \<exists>r t content text.
     converse env (PStr CHAT_SYSTEM)
       ((case SESSIONS w (or_str (chat_session_id req) (uuid4 env)) of Some h \<Rightarrow> h | None \<Rightarrow> []) @
        [user_message (user_input req)])
       PNone PNone PNone (client w) = (Inr r, t) \<and>
     response_content r = Inr content \<and> joined_text content = Inr text \<and>
     assistant_output resp = assistant_text_of text"
  by (auto simp: chat_send_def chat_try_def wtrace_def Let_def split: prod.splits sum.splits)

lemma text_parts_texts:
  "text_parts (map (\<lambda>t. PDict [(ustr ''text'', PStr t)]) parts) =
     Inr (map PStr (filter (\<lambda>t. t \<noteq> []) parts))"
  by (induction parts) (simp_all add: dict_get_def)

lemma the_strs_PStr: "the_strs (map PStr xs) = Inr xs"
  by (induction xs) simp_all

lemma joined_text_texts:
  "joined_text (PList (map (\<lambda>t. PDict [(ustr ''text'', PStr t)]) parts)) =
     Inr (py_strip (str_join [10] (filter (\<lambda>t. t \<noteq> []) parts)))"
  by (simp add: joined_text_def text_parts_texts py_join_def the_strs_PStr)

lemma assistant_text_of_empty: "assistant_text_of [] = ustr ''(no text output)''"
  by (simp add: assistant_text_of_def Let_def ustr_def)

text \<open>
  C9, as amended. The reply of a chat request that succeeds is made from the joined
  text of the response to this request's model call: the non-empty text parts joined
  with newlines and stripped of white space at both ends. A joined text longer than
  220 characters is cut to its first 220 characters, stripped of trailing white
  space, and followed by a space and an ellipsis character, so the reply has at most
  222 characters; a non-empty joined text of at most 220 characters is returned
  unchanged, and an empty one gives \<open>(no text output)\<close>.
\<close>

theorem chat_output_cut_at_220:
  "(chat_send env req w = (Inr resp, w') \<longrightarrow>
      (\<exists>r t content text.
         converse env (PStr CHAT_SYSTEM)
           ((case SESSIONS w (or_str (chat_session_id req) (uuid4 env)) of Some h \<Rightarrow> h | None \<Rightarrow> []) @
            [user_message (user_input req)])
           PNone PNone PNone (client w) = (Inr r, t) \<and>
         response_content r = Inr content \<and> joined_text content = Inr text \<and>
         assistant_output resp = assistant_text_of text) \<and>
      length (assistant_output resp) \<le> 222) \<and>
   joined_text (PList (map (\<lambda>t. PDict [(ustr ''text'', PStr t)]) parts)) =
     Inr (py_strip (str_join [10] (filter (\<lambda>t. t \<noteq> []) parts))) \<and>
   (length long_text > 220 \<longrightarrow>
      assistant_text_of long_text = py_rstrip (take 220 long_text) @ [32, 8230]) \<and>
   (short_text \<noteq> [] \<and> length short_text \<le> 220 \<longrightarrow> assistant_text_of short_text = short_text) \<and>
   assistant_text_of [] = ustr ''(no text output)''"
proof (intro conjI impI)
  assume a: "chat_send env req w = (Inr resp, w')"
  from chat_send_source[OF a]
  show "\<exists>r t content text.
         converse env (PStr CHAT_SYSTEM)
           ((case SESSIONS w (or_str (chat_session_id req) (uuid4 env)) of Some h \<Rightarrow> h | None \<Rightarrow> []) @
            [user_message (user_input req)])
           PNone PNone PNone (client w) = (Inr r, t) \<and>
         response_content r = Inr content \<and> joined_text content = Inr text \<and>
         assistant_output resp = assistant_text_of text" .
  from chat_send_output[OF a] length_assistant_text_of
  show "length (assistant_output resp) \<le> 222" by auto
next
  show "joined_text (PList (map (\<lambda>t. PDict [(ustr ''text'', PStr t)]) parts)) =
     Inr (py_strip (str_join [10] (filter (\<lambda>t. t \<noteq> []) parts)))"
    by (rule joined_text_texts)
next
  assume "length long_text > 220"
  then show "assistant_text_of long_text = py_rstrip (take 220 long_text) @ [32, 8230]"
    by (rule assistant_text_of_long)
next
  assume "short_text \<noteq> [] \<and> length short_text \<le> 220"
  then show "assistant_text_of short_text = short_text"
    by (simp add: assistant_text_of_short)
next
  show "assistant_text_of [] = ustr ''(no text output)''"
    by (rule assistant_text_of_empty)
qed

lemma py_strip_letters: "py_strip (replicate n 97) = replicate n 97"
  by (simp add: py_strip_def py_rstrip_def py_isspace_def)

lemma joined_single_text:
  "joined_text (PList [PDict [(ustr ''text'', PStr (replicate (Suc n) 97))]]) = Inr (replicate (Suc n) 97)"
  using py_strip_letters[of "Suc n"]
  by (simp add: joined_text_def py_join_def dict_get_def)

lemma chat_example_run:
  "fst (chat_send (example_env (Inr (text_response t)) (Inl (LibraryError [])) (\<lambda>s. Inr PNone))
          \<lparr>chat_session_id = Some (ustr ''s''), user_input = ustr ''hi'', chat_context = None\<rparr>
          world_init) =
   (case joined_text (PList [PDict [(ustr ''text'', PStr t)]]) of
      Inl e \<Rightarrow> Inl \<lparr>status_code = 500, detail = exn_str e\<rparr>
    | Inr text \<Rightarrow> Inr \<lparr>session_id = ustr ''s'', assistant_output = assistant_text_of text, history_len = 2\<rparr>)"
  by (simp add: chat_send_def chat_try_def example_env_def world_init_def converse_def
        retry_without_tools_if_needed_def converse_request_def set_if_def response_content_def
        text_response_def dict_get_default_def or_str_def wtrace_def Let_def ustr_def
      split: sum.splits)

text \<open>
  C9 as stated fails: for a model text of 221 letters the reply is 220 letters, a
  space and the ellipsis, 222 characters, which exceeds 220.
\<close>

theorem chat_output_exceeds_220:
  "fst (chat_send (example_env (Inr (text_response (replicate 221 97))) (Inl (LibraryError [])) (\<lambda>s. Inr PNone))
          \<lparr>chat_session_id = Some (ustr ''s''), user_input = ustr ''hi'', chat_context = None\<rparr>
          world_init) =
     Inr \<lparr>session_id = ustr ''s'', assistant_output = replicate 220 97 @ [32, 8230], history_len = 2\<rparr> \<and>
   length (replicate 220 97 @ [32, 8230 :: nat]) = 222"
proof -
  have j: "joined_text (PList [PDict [(ustr ''text'', PStr (replicate 221 97))]]) = Inr (replicate 221 97)"
    using joined_single_text[of 220] by simp
  have t: "take 220 (replicate 221 (97::nat)) = replicate 220 97" by simp
  have r: "py_rstrip (replicate 220 97) = replicate 220 97"
    by (simp add: py_rstrip_def py_isspace_def)
  have a: "assistant_text_of (replicate 221 97) = replicate 220 97 @ [32, 8230]"
    by (simp add: assistant_text_of_def Let_def t r)
  show ?thesis by (simp add: chat_example_run j a)
qed


text \<open>
  The amended claim on a chat request answered with \<open>hello\<close>, on a text of 221
  letters, and on the parts \<open>hi\<close> with a newline after it and two blanks, whose
  joined text is \<open>hi\<close>.
\<close>

theorem chat_output_cut_at_220_witness:
  "fst (chat_send (example_env (Inr (text_response (ustr ''hello''))) (Inl (LibraryError [])) (\<lambda>s. Inr PNone))
          \<lparr>chat_session_id = Some (ustr ''s''), user_input = ustr ''hi'', chat_context = None\<rparr>
          world_init) =
     Inr \<lparr>session_id = ustr ''s'', assistant_output = ustr ''hello'', history_len = 2\<rparr> \<and>
   length (ustr ''hello'') \<le> 222 \<and>
   joined_text (PList [PDict [(ustr ''text'', PStr (ustr ''hi\<newline>''))],
                       PDict [(ustr ''text'', PStr (ustr ''  ''))]]) = Inr (ustr ''hi'') \<and>
   length (replicate 221 (97::nat)) > 220 \<and>
   assistant_text_of (replicate 221 97) = py_rstrip (take 220 (replicate 221 97)) @ [32, 8230] \<and>
   ustr ''hello'' \<noteq> [] \<and> length (ustr ''hello'') \<le> 220 \<and>
   assistant_text_of (ustr ''hello'') = ustr ''hello''"
proof -
  define E where "E = example_env (Inr (text_response (ustr ''hello''))) (Inl (LibraryError [])) (\<lambda>s. Inr PNone)"
  define R where "R = \<lparr>chat_session_id = Some (ustr ''s''), user_input = ustr ''hi'', chat_context = None\<rparr>"
  define resp where "resp = \<lparr>session_id = ustr ''s'', assistant_output = ustr ''hello'', history_len = 2\<rparr>"
  have j: "joined_text (PList [PDict [(ustr ''text'', PStr (ustr ''hello''))]]) = Inr (ustr ''hello'')"
    by (simp add: joined_text_def py_join_def dict_get_def py_strip_def py_rstrip_def
          py_isspace_def ustr_def)
  have s: "ustr ''hello'' \<noteq> [] \<and> length (ustr ''hello'') \<le> 220"
    by (simp add: ustr_def)
  have l: "length (replicate 221 (97::nat)) > 220" by simp
  have p: "py_strip (str_join [10] (filter (\<lambda>t. t \<noteq> []) [ustr ''hi\<newline>'', ustr ''  ''])) = ustr ''hi''"
    by (simp add: py_strip_def py_rstrip_def py_isspace_def ustr_def)
  have run: "fst (chat_send E R world_init) = Inr resp"
    unfolding E_def R_def resp_def
    by (simp add: chat_example_run j s assistant_text_of_short)
  then have h: "chat_send E R world_init = (Inr resp, snd (chat_send E R world_init))"
    by (simp add: prod_eq_iff)
  from chat_output_cut_at_220[of E R world_init resp "snd (chat_send E R world_init)"
         "[ustr ''hi\<newline>'', ustr ''  '']" "replicate 221 97" "ustr ''hello''"] h s l run p
  show ?thesis unfolding E_def R_def resp_def by simp
qed

section \<open>Proofs: result summarizer\<close>

lemma py_getitem_has_type: "py_getitem a (ustr ''type'') = Inr v \<Longrightarrow> has_type a"
  by (cases a) (auto simp: has_type_def split: option.splits)

lemma py_getitem_no_type: "\<not> has_type a \<Longrightarrow> \<exists>e. py_getitem a (ustr ''type'') = Inl e"
  by (cases a) (auto simp: has_type_def split: option.splits)

lemma count_type_has_type: "count_type ty acts = Inr n \<Longrightarrow> list_all has_type acts"
  by (induction acts arbitrary: n) (auto split: sum.splits dest: py_getitem_has_type)

lemma count_type_raises: "\<not> list_all has_type acts \<Longrightarrow> \<exists>e. count_type ty acts = Inl e"
  using count_type_has_type[of ty acts] by (cases "count_type ty acts") auto

lemma build_returns_has_type:
  "build_assistant_message env user_text acts = Inr s \<Longrightarrow> list_all has_type acts"
  by (auto simp: build_assistant_message_def split: sum.splits dest: count_type_has_type)

lemma build_raises_without_type:
  "\<not> list_all has_type acts \<Longrightarrow> \<exists>e. build_assistant_message env user_text acts = Inl e"
  using build_returns_has_type[of env user_text acts]
  by (cases "build_assistant_message env user_text acts") auto

lemma plan_finish_unvalidated:
  assumes "json_only_plan env sid (plan_input req) (plan_context req) w = (Inr acts, w1)"
    and "acts \<noteq> []" and "\<not> list_all has_type acts"
  shows "\<exists>e w'. plan_finish env req sid [] w = (Inl e, w')"
proof -
  from build_raises_without_type[OF assms(3)]
  obtain e where "build_assistant_message env (plan_input req) acts = Inl e" by blast
  then show ?thesis using assms(1,2)
    by (simp add: plan_finish_def Let_def)
qed

section \<open>Proofs: the summarizer's precondition\<close>

text \<open>
  C10. The summarizer returns a summary only for an action list in which every
  action carries a \<open>type\<close> key: for a list with an element that has none, the lookup
  \<open>a["type"]\<close> fails and the summarizer raises instead of returning. The plan
  endpoint hands it the actions of the JSON-only fallback as they are, so a fallback
  plan with such an element makes the rest of the request raise.
\<close>

theorem summarizer_needs_type:
  "(build_assistant_message env user_text typed = Inr s \<longrightarrow> list_all has_type typed) \<and>
   (\<not> list_all has_type acts \<longrightarrow> (\<exists>e. build_assistant_message env user_text acts = Inl e)) \<and>
   (json_only_plan env sid (plan_input req) (plan_context req) w = (Inr acts, w1) \<and>
    acts \<noteq> [] \<and> \<not> list_all has_type acts \<longrightarrow>
      (\<exists>e w'. plan_finish env req sid [] w = (Inl e, w')))"
  using build_returns_has_type[of env user_text typed s]
    build_raises_without_type[of acts env user_text]
    plan_finish_unvalidated[of env sid req w acts w1]
  by blast

section \<open>Proofs: JSON-only fallback planner\<close>

lemma error_traced_wtrace: "error_traced sid (wtrace sid (ustr ''error'') payload w)"
  by (simp add: error_traced_def session_events_def wtrace_def queued_trace)

lemma json_only_plan_soft:
  assumes "context_blob context 10000 = Inr snapshot"
  shows "\<exists>acts w'. json_only_plan env sid user_text context w = (Inr acts, w')"
  using assms
  by (auto simp: json_only_plan_def Let_def split: prod.splits sum.splits)

lemma json_only_plan_catches:
  assumes "context_blob context 10000 = Inr snapshot"
    and "json_plan_try env sid [user_message (json_plan_prompt user_text snapshot)]
           (wtrace sid (ustr ''step'') (PDict [(ustr ''msg'', PStr (ustr ''json-plan.start''))]) w) =
         (Inl e, w1)"
  shows "fst (json_only_plan env sid user_text context w) = Inr [] \<and>
         error_traced sid (snd (json_only_plan env sid user_text context w))"
  using assms
  by (simp add: json_only_plan_def Let_def error_traced_wtrace)

lemma json_only_plan_raises_on_malformed_files:
  "fst (json_only_plan env sid user_text
          (Some [(ustr ''files'', PList [PStr (ustr ''app/page.tsx'')])]) w) = Inl AttributeError \<and>
   fst (json_only_plan env sid user_text
          (Some [(ustr ''files'', PDict [(ustr ''app/page.tsx'', PNone)])]) w) = Inl TypeError"
  by (simp add: json_only_plan_def context_blob_def Let_def file_header_def ustr_def)

section \<open>Proofs: plan orchestrator\<close>

lemma PlanResponse_new_Inr:
  "PlanResponse_new short_msg acts = Inr resp \<Longrightarrow>
   actions resp = acts \<and> assistant_message resp = Some short_msg \<and> list_all is_dict acts"
  by (auto simp: PlanResponse_new_def split: if_splits)

lemma synthesize_nonempty: "synthesize_minimal_action t \<noteq> []"
  by (simp add: synthesize_minimal_action_def Let_def)

lemma plan_finish_ok:
  assumes "plan_finish env req sid captured w = (Inr resp, w')"
  shows "actions resp \<noteq> [] \<and> list_all has_type (actions resp) \<and>
         list_all is_dict (actions resp) \<and> assistant_message resp \<noteq> None"
proof -
  from assms obtain acts w1 where
    j: "(if captured = [] then json_only_plan env sid (plan_input req) (plan_context req) w
         else (Inr captured, w)) = (Inr acts, w1)"
    by (auto simp: plan_finish_def split: prod.splits sum.splits)
  define acts' where "acts' = (if acts = [] then synthesize_minimal_action (plan_input req) else acts)"
  from assms j obtain short_msg where
    b: "build_assistant_message env (plan_input req) acts' = Inr short_msg"
    and r: "PlanResponse_new short_msg acts' = Inr resp"
    by (auto simp: plan_finish_def Let_def acts'_def split: prod.splits sum.splits)
  have ne: "acts' \<noteq> []" by (simp add: acts'_def synthesize_nonempty)
  from build_returns_has_type[OF b] PlanResponse_new_Inr[OF r] ne
  show ?thesis by simp
qed

lemma plan_try_ok:
  assumes "plan_try env req sid w = (Inr resp, w')"
  shows "actions resp \<noteq> [] \<and> list_all has_type (actions resp) \<and>
         list_all is_dict (actions resp) \<and> assistant_message resp \<noteq> None"
proof -
  from assms obtain captured w0 where "plan_finish env req sid captured w0 = (Inr resp, w')"
    by (auto simp: plan_try_def Let_def split: prod.splits sum.splits)
  then show ?thesis by (rule plan_finish_ok)
qed

lemma plan_endpoint_cases:
  "(\<exists>resp w'. plan_endpoint env req w = (Inr resp, w') \<and>
       plan_try env req (or_str (plan_session_id req) (uuid4 env)) w = (Inr resp, w')) \<or>
   (\<exists>e w1. plan_endpoint env req w =
       (Inl \<lparr>status_code = 500, detail = exn_str e\<rparr>,
        wtrace (or_str (plan_session_id req) (uuid4 env)) (ustr ''error'')
          (endpoint_error ''invocations'' e) w1))"
  by (cases "plan_try env req (or_str (plan_session_id req) (uuid4 env)) w")
     (auto simp: plan_endpoint_def Let_def split: sum.splits)

text \<open>
  C1. A planning request either returns a response or raises the service error. A
  response holds a summary and a non-empty action list, every action of which is a
  mapping carrying a \<open>type\<close> key; the service error has status 500 and an \<open>error\<close>
  event was pushed to the session's trace queue before it was raised.
\<close>

theorem plan_endpoint_nonempty_or_error:
  "(case fst (plan_endpoint env req w) of
      Inr resp \<Rightarrow>
        actions resp \<noteq> [] \<and> list_all has_type (actions resp) \<and>
        list_all is_dict (actions resp) \<and> assistant_message resp \<noteq> None
    | Inl err \<Rightarrow>
        status_code err = 500 \<and>
        error_traced (or_str (plan_session_id req) (uuid4 env)) (snd (plan_endpoint env req w)))"
  using plan_endpoint_cases[of env req w]
  by (auto simp: error_traced_wtrace dest: plan_try_ok)

section \<open>Proofs: runs of the example environment\<close>

lemma example_converse:
  "converse (example_env (Inr resp) stream loads) sp messages tools tc ic t = (Inr resp, t)"
  by (simp add: converse_def retry_without_tools_if_needed_def example_env_def)

lemma example_converse_stream:
  "converse_stream (example_env resp (Inl (LibraryError m)) loads) sp messages tools ic t =
     (Inl (LibraryError m), t)"
  by (simp add: converse_stream_def retry_without_tools_if_needed_def example_env_def)

lemma response_content_text:
  "response_content (text_response t) = Inr (PList [PDict [(ustr ''text'', PStr t)]])"
  by (simp add: response_content_def text_response_def dict_get_default_def ustr_def)

lemma joined_text_one:
  "joined_text (PList [PDict [(ustr ''text'', PStr t)]]) = Inr (py_strip t)"
  by (simp add: joined_text_def py_join_def dict_get_def)

lemma strip_untyped: "py_strip untyped_plan_text = untyped_plan_text"
  by (simp add: py_strip_def py_rstrip_def py_isspace_def untyped_plan_text_def ustr_def)

lemma json_plan_untyped:
  "fst (json_only_plan (example_env (Inr (text_response untyped_plan_text)) timed_out (\<lambda>s. Inr untyped_plan))
          sid user_text None w) =
     Inr [PDict [(ustr ''path'', PStr (ustr ''a.txt''))]]"
  by (simp add: json_only_plan_def json_plan_try_def context_blob_def example_converse
        response_content_text joined_text_one strip_untyped Let_def untyped_plan_def
        dict_get_default_def)
     (simp add: example_env_def untyped_plan_text_def ustr_def dict_get_default_def)


lemma build_untyped:
  "build_assistant_message env user_text [PDict [(ustr ''path'', PStr (ustr ''a.txt''))]] =
     Inl (KeyError (ustr ''type''))"
  by (simp add: build_assistant_message_def ustr_def)

lemma describe_empty:
  "describe_contents (example_env resp stream loads) (PStr []) = Inr []"
  by (simp add: describe_contents_def example_env_def Let_def hint_if_def ustr_def)

lemma build_typed:
  "build_assistant_message (example_env resp stream loads) user_text
     [PDict [(ustr ''type'', PStr (ustr ''update_file''))]] =
     Inr (summary_text (example_env resp stream loads) user_text 0 1 0 0 [] [])"
  by (simp add: build_assistant_message_def dict_get_def py_join_def describe_empty)
     (simp add: ustr_def)


lemma example_loop_runs: "run_until_complete_error (example_env resp stream loads) = None"
  by (simp add: example_env_def)

lemma absorb_text_part:
  "absorb (PDict [(ustr ''text'', PStr t)]) c = (Inr (), c)"
  by (simp add: absorb_def dict_get_def ustr_def)

lemma fallback_example:
  assumes "t \<noteq> []"
  shows "\<exists>s'. stream_or_fallback (example_env (Inr (text_response t)) timed_out loads) sid msgs s =
                 (Inr (), s') \<and> capture s' = capture s"
proof -
  have r: "run_stream (example_env (Inr (text_response t)) timed_out loads) sid msgs s =
             (Inl (LibraryError (ustr ''Read timed out'')), set_client () s)"
    by (simp add: run_stream_def timed_out_def example_converse_stream example_loop_runs)
  have f: "fallback_parts sid [PDict [(ustr ''text'', PStr t)]] s1 =
             (Inr (), token sid (PStr t) s1)" for s1 :: "unit plan_locals"
    using assms
    by (simp add: dict_get_def absorb_text_part Let_def)
  have n: "nonstream_fallback (example_env (Inr (text_response t)) timed_out loads) sid msgs s1 =
             (Inr (), ltrace sid (ustr ''model.stop'') phase_plan (token sid (PStr t) (set_client () s1)))"
    for s1 :: "unit plan_locals"
    by (simp add: nonstream_fallback_def example_converse response_content_text f
          del: fallback_parts.simps)
  show ?thesis
    by (simp add: stream_or_fallback_def r n ltrace_def token_def set_client_def)
qed

lemma plan_endpoint_example:
  assumes "t \<noteq> []"
  shows "\<exists>W. fst (plan_endpoint (example_env (Inr (text_response t)) timed_out loads) req w) =
           (case fst (plan_finish (example_env (Inr (text_response t)) timed_out loads) req
                        (or_str (plan_session_id req) (ustr ''00000000-0000-4000-8000-000000000000''))
                        [] W) of
              Inl e \<Rightarrow> Inl \<lparr>status_code = 500, detail = exn_str e\<rparr>
            | Inr r \<Rightarrow> Inr r)"
proof -
  define E where "E = example_env (Inr (text_response t)) timed_out loads"
  define sid where "sid = or_str (plan_session_id req) (ustr ''00000000-0000-4000-8000-000000000000'')"
  have u: "uuid4 E = ustr ''00000000-0000-4000-8000-000000000000''"
    by (simp add: E_def example_env_def)
  define s0 where "s0 = \<lparr>assistant_chunks = [], capture = ToolCapture_init,
      the_world = wtrace sid (ustr ''model.start'')
        (PDict [(ustr ''model'', PStr (MODEL_ID E)), (ustr ''phase'', PStr (ustr ''plan''))])
        (wtrace sid (ustr ''step'') (PDict (step_msg ''planning.start'')) w)\<rparr>"
  from fallback_example[OF assms, of loads sid "[user_message (plan_input req)]" s0]
  obtain s' where s': "stream_or_fallback E sid [user_message (plan_input req)] s0 = (Inr (), s')"
    "capture s' = capture s0" by (auto simp: E_def)
  have c: "capture_actions (capture s') = []"
    by (simp add: s'(2) s0_def ToolCapture_init_def)
  have "plan_try E req sid w = plan_finish E req sid [] (the_world s')"
    using s'(1) c by (simp add: plan_try_def Let_def s0_def)
  then have "fst (plan_endpoint E req w) =
           (case fst (plan_finish E req sid [] (the_world s')) of
              Inl e \<Rightarrow> Inl \<lparr>status_code = 500, detail = exn_str e\<rparr>
            | Inr r \<Rightarrow> Inr r)"
    by (simp add: plan_endpoint_def Let_def u sid_def split: prod.splits sum.splits)
  then show ?thesis unfolding E_def sid_def by blast
qed

lemma plan_finish_untyped:
  "fst (plan_finish (example_env (Inr (text_response untyped_plan_text)) timed_out (\<lambda>s. Inr untyped_plan))
          (plan_request ''hi'') sid [] W) = Inl (KeyError (ustr ''type''))"
proof -
  define E where "E = example_env (Inr (text_response untyped_plan_text)) timed_out (\<lambda>s. Inr untyped_plan)"
  obtain r w1 where j: "json_only_plan E sid (ustr ''hi'') None W = (r, w1)"
    by (cases "json_only_plan E sid (ustr ''hi'') None W")
  with json_plan_untyped[of sid "ustr ''hi''" W]
  have r: "r = Inr [PDict [(ustr ''path'', PStr (ustr ''a.txt''))]]" by (simp add: E_def)
  show ?thesis
    unfolding E_def[symmetric]
    by (simp add: plan_finish_def plan_request_def j r Let_def build_untyped)
qed


text \<open>
  The claim on an action with a \<open>type\<close> and on one with only a \<open>path\<close>, the second
  coming out of the JSON-only fallback: the lookup raises \<open>KeyError\<close>, and the
  endpoint answers with status 500.
\<close>

theorem summarizer_needs_type_witness:
  "build_assistant_message (example_env (Inr (text_response untyped_plan_text)) timed_out (\<lambda>s. Inr untyped_plan))
     (ustr ''hi'') [PDict [(ustr ''type'', PStr (ustr ''update_file''))]] =
     Inr (summary_text (example_env (Inr (text_response untyped_plan_text)) timed_out (\<lambda>s. Inr untyped_plan))
            (ustr ''hi'') 0 1 0 0 [] []) \<and>
   list_all has_type [PDict [(ustr ''type'', PStr (ustr ''update_file''))]] \<and>
   \<not> list_all has_type [PDict [(ustr ''path'', PStr (ustr ''a.txt''))]] \<and>
   build_assistant_message (example_env (Inr (text_response untyped_plan_text)) timed_out (\<lambda>s. Inr untyped_plan))
     (ustr ''hi'') [PDict [(ustr ''path'', PStr (ustr ''a.txt''))]] = Inl (KeyError (ustr ''type'')) \<and>
   fst (json_only_plan (example_env (Inr (text_response untyped_plan_text)) timed_out (\<lambda>s. Inr untyped_plan))
          (ustr ''s'') (ustr ''hi'') None world_init) =
     Inr [PDict [(ustr ''path'', PStr (ustr ''a.txt''))]] \<and>
   (\<exists>e w'. plan_finish (example_env (Inr (text_response untyped_plan_text)) timed_out (\<lambda>s. Inr untyped_plan))
             (plan_request ''hi'') (ustr ''s'') [] world_init = (Inl e, w')) \<and>
   fst (plan_endpoint (example_env (Inr (text_response untyped_plan_text)) timed_out (\<lambda>s. Inr untyped_plan))
          (plan_request ''hi'') world_init) =
     Inl \<lparr>status_code = 500, detail = [39] @ ustr ''type'' @ [39]\<rparr>"
proof -
  define E where "E = example_env (Inr (text_response untyped_plan_text)) timed_out (\<lambda>s. Inr untyped_plan)"
  define typed where "typed = [PDict [(ustr ''type'', PStr (ustr ''update_file''))]]"
  define acts where "acts = [PDict [(ustr ''path'', PStr (ustr ''a.txt''))]]"
  have b1: "build_assistant_message E (ustr ''hi'') typed = Inr (summary_text E (ustr ''hi'') 0 1 0 0 [] [])"
    unfolding E_def typed_def by (rule build_typed)
  have b2: "build_assistant_message E (ustr ''hi'') acts = Inl (KeyError (ustr ''type''))"
    unfolding acts_def by (rule build_untyped)
  have n: "\<not> list_all has_type acts"
    by (simp add: acts_def has_type_def ustr_def)
  have ne: "acts \<noteq> []" by (simp add: acts_def)
  have j: "fst (json_only_plan E (ustr ''s'') (ustr ''hi'') None world_init) = Inr acts"
    unfolding E_def acts_def by (rule json_plan_untyped)
  then have j': "json_only_plan E (ustr ''s'') (plan_input (plan_request ''hi''))
                   (plan_context (plan_request ''hi'')) world_init =
                 (Inr acts, snd (json_only_plan E (ustr ''s'') (ustr ''hi'') None world_init))"
    by (simp add: prod_eq_iff plan_request_def)
  have t: "untyped_plan_text \<noteq> []" by (simp add: untyped_plan_text_def ustr_def)
  from plan_endpoint_example[OF t, of "\<lambda>s. Inr untyped_plan" "plan_request ''hi''" world_init]
  have p: "fst (plan_endpoint E (plan_request ''hi'') world_init) =
             Inl \<lparr>status_code = 500, detail = [39] @ ustr ''type'' @ [39]\<rparr>"
    by (auto simp: E_def plan_finish_untyped)
  from summarizer_needs_type[of E "ustr ''hi''" typed "summary_text E (ustr ''hi'') 0 1 0 0 [] []"
         acts "ustr ''s''" "plan_request ''hi''" world_init
         "snd (json_only_plan E (ustr ''s'') (ustr ''hi'') None world_init)"]
    b1 b2 n ne j j' p
  show ?thesis unfolding E_def[symmetric] typed_def[symmetric] acts_def[symmetric] by blast
qed

lemma strip_sorry: "py_strip (ustr ''Sorry.'') = ustr ''Sorry.''"
  by (simp add: py_strip_def py_rstrip_def py_isspace_def ustr_def)

lemma json_plan_not_json:
  "fst (json_only_plan (example_env (Inr (text_response (ustr ''Sorry.''))) timed_out not_json)
          sid user_text None w) = Inr []"
  by (simp add: json_only_plan_def json_plan_try_def context_blob_def example_converse
        response_content_text joined_text_one strip_sorry Let_def not_json_def)
     (simp add: example_env_def ustr_def not_json_def)

lemma no_button_in_page:
  "\<not> str_contains (ustr ''<button'') (tsx_head @ safe_text (ustr ''do nothing useful'') @ tsx_tail)"
  by (simp add: tsx_head_def tsx_tail_def safe_text_def str_replace1_def ustr_def)


lemma page_nonempty: "tsx_head \<noteq> []"
  by (simp add: tsx_head_def ustr_def)

lemma describe_page:
  "describe_contents (example_env resp stream loads)
     (PStr (tsx_head @ safe_text (ustr ''do nothing useful'') @ tsx_tail)) = Inr []"
  by (simp add: describe_contents_def example_env_def Let_def hint_if_def no_button_in_page)

lemma build_synth:
  "build_assistant_message (example_env resp stream loads) (ustr ''do nothing useful'')
     (synthesize_minimal_action (ustr ''do nothing useful'')) =
     Inr (summary_text (example_env resp stream loads) (ustr ''do nothing useful'') 0 1 0 0
            (ustr ''app/page.tsx'') [])"
proof -
  have k: "ustr ''path'' \<noteq> ustr ''type''" "ustr ''contents'' \<noteq> ustr ''type''"
    "ustr ''contents'' \<noteq> ustr ''path''"
    "ustr ''update_file'' \<noteq> ustr ''create_file''" "ustr ''update_file'' \<noteq> ustr ''delete_file''"
    "ustr ''update_file'' \<noteq> ustr ''run_command''" "ustr ''app/page.tsx'' \<noteq> []"
    by (simp_all add: ustr_def)
  show ?thesis
    by (simp add: build_assistant_message_def synthesize_minimal_action_def Let_def dict_get_def
          py_join_def describe_page page_nonempty k k[symmetric])
qed

lemma plan_finish_synth:
  "fst (plan_finish (example_env (Inr (text_response (ustr ''Sorry.''))) timed_out not_json)
          (plan_request ''do nothing useful'') sid [] W) =
     Inr \<lparr>assistant_message =
            Some (summary_text (example_env (Inr (text_response (ustr ''Sorry.''))) timed_out not_json)
                    (ustr ''do nothing useful'') 0 1 0 0 (ustr ''app/page.tsx'') []),
          actions = synthesize_minimal_action (ustr ''do nothing useful'')\<rparr>"
proof -
  define E where "E = example_env (Inr (text_response (ustr ''Sorry.''))) timed_out not_json"
  obtain r w1 where j: "json_only_plan E sid (ustr ''do nothing useful'') None W = (r, w1)"
    by (cases "json_only_plan E sid (ustr ''do nothing useful'') None W")
  with json_plan_not_json[of sid "ustr ''do nothing useful''" W]
  have r: "r = Inr []" by (simp add: E_def)
  have d: "list_all is_dict (synthesize_minimal_action (ustr ''do nothing useful''))"
    by (simp add: synthesize_minimal_action_def is_dict_def Let_def)
  have b: "build_assistant_message E (ustr ''do nothing useful'')
             (synthesize_minimal_action (ustr ''do nothing useful'')) =
           Inr (summary_text E (ustr ''do nothing useful'') 0 1 0 0 (ustr ''app/page.tsx'') [])"
    unfolding E_def by (rule build_synth)
  show ?thesis
    unfolding E_def[symmetric]
    by (simp add: plan_finish_def plan_request_def j r Let_def b PlanResponse_new_def d)
qed

lemma strip_braces: "py_strip (ustr ''{}'') = ustr ''{}''"
  by (simp add: py_strip_def py_rstrip_def py_isspace_def ustr_def)

lemma json_plan_missing_key:
  "fst (json_only_plan (example_env (Inr (text_response (ustr ''{}''))) timed_out (\<lambda>s. Inr (PDict [])))
          (ustr ''s'') (ustr ''hi'') None world_init) = Inr [] \<and>
   \<not> error_traced (ustr ''s'')
        (snd (json_only_plan (example_env (Inr (text_response (ustr ''{}''))) timed_out (\<lambda>s. Inr (PDict [])))
                (ustr ''s'') (ustr ''hi'') None world_init))"
  by (simp add: json_only_plan_def json_plan_try_def context_blob_def example_converse
        response_content_text joined_text_one strip_braces Let_def dict_get_default_def)
     (simp add: example_env_def ustr_def dict_get_default_def error_traced_def session_events_def
        queued_def wtrace_def trace_def get_queue_def world_init_def bus_init_def Let_def)


lemma plan_finish_raises_on_malformed_files:
  "fst (plan_finish env
          \<lparr>plan_input = user_text,
           plan_context = Some [(ustr ''files'', PList [PStr (ustr ''app/page.tsx'')])],
           plan_session_id = None\<rparr> sid [] w) = Inl AttributeError"
proof -
  obtain r w1 where j: "json_only_plan env sid user_text
      (Some [(ustr ''files'', PList [PStr (ustr ''app/page.tsx'')])]) w = (r, w1)"
    by (cases "json_only_plan env sid user_text
      (Some [(ustr ''files'', PList [PStr (ustr ''app/page.tsx'')])]) w")
  with json_only_plan_raises_on_malformed_files[of env sid user_text w]
  have "r = Inl AttributeError" by simp
  with j show ?thesis by (simp add: plan_finish_def)
qed

text \<open>
  C3 fails on the code. The snapshot of the context is built before the \<open>try\<close>
  block, so for a context whose \<open>files\<close> entry is a list, or a mapping with a
  contents that is not a string, the planner raises instead of returning an empty
  sequence, whatever the model would answer. And for a parsed object with no
  \<open>actions\<close> key the lookup's default is the empty list, which is a list: the
  planner returns the empty sequence and traces no \<open>error\<close> event.
\<close>

theorem json_only_plan_raises_or_hides_failure:
  "fst (json_only_plan env sid user_text
          (Some [(ustr ''files'', PList [PStr (ustr ''app/page.tsx'')])]) w) = Inl AttributeError \<and>
   fst (json_only_plan env sid user_text
          (Some [(ustr ''files'', PDict [(ustr ''app/page.tsx'', PNone)])]) w) = Inl TypeError \<and>
   fst (plan_finish env
          \<lparr>plan_input = user_text,
           plan_context = Some [(ustr ''files'', PList [PStr (ustr ''app/page.tsx'')])],
           plan_session_id = None\<rparr> sid [] w) = Inl AttributeError \<and>
   fst (json_only_plan (example_env (Inr (text_response (ustr ''{}''))) timed_out (\<lambda>s. Inr (PDict [])))
          (ustr ''s'') (ustr ''hi'') None world_init) = Inr [] \<and>
   \<not> error_traced (ustr ''s'')
        (snd (json_only_plan (example_env (Inr (text_response (ustr ''{}''))) timed_out (\<lambda>s. Inr (PDict [])))
                (ustr ''s'') (ustr ''hi'') None world_init))"
  using json_only_plan_raises_on_malformed_files[of env sid user_text w]
    plan_finish_raises_on_malformed_files[of env user_text sid w] json_plan_missing_key
  by simp

text \<open>
  The claim on two requests whose stream times out: one where the model answers with
  prose and the fallback text is not JSON, so the single synthesized action is
  returned; one where the fallback plan's action has no \<open>type\<close>, so the service
  error is raised and traced.
\<close>

theorem plan_endpoint_nonempty_or_error_witness:
  "fst (plan_endpoint (example_env (Inr (text_response (ustr ''Sorry.''))) timed_out not_json)
          (plan_request ''do nothing useful'') world_init) =
     Inr \<lparr>assistant_message =
            Some (summary_text (example_env (Inr (text_response (ustr ''Sorry.''))) timed_out not_json)
                    (ustr ''do nothing useful'') 0 1 0 0 (ustr ''app/page.tsx'') []),
          actions = synthesize_minimal_action (ustr ''do nothing useful'')\<rparr> \<and>
   synthesize_minimal_action (ustr ''do nothing useful'') \<noteq> [] \<and>
   list_all has_type (synthesize_minimal_action (ustr ''do nothing useful'')) \<and>
   fst (plan_endpoint (example_env (Inr (text_response untyped_plan_text)) timed_out (\<lambda>s. Inr untyped_plan))
          (plan_request ''hi'') world_init) =
     Inl \<lparr>status_code = 500, detail = [39] @ ustr ''type'' @ [39]\<rparr> \<and>
   error_traced (ustr ''s'')
     (snd (plan_endpoint (example_env (Inr (text_response untyped_plan_text)) timed_out (\<lambda>s. Inr untyped_plan))
             (plan_request ''hi'') world_init))"
proof -
  define E1 where "E1 = example_env (Inr (text_response (ustr ''Sorry.''))) timed_out not_json"
  define E2 where "E2 = example_env (Inr (text_response untyped_plan_text)) timed_out (\<lambda>s. Inr untyped_plan)"
  have t1: "ustr ''Sorry.'' \<noteq> []" by (simp add: ustr_def)
  have t2: "untyped_plan_text \<noteq> []" by (simp add: untyped_plan_text_def ustr_def)
  from plan_endpoint_example[OF t1, of not_json "plan_request ''do nothing useful''" world_init]
  have p1: "fst (plan_endpoint E1 (plan_request ''do nothing useful'') world_init) =
     Inr \<lparr>assistant_message = Some (summary_text E1 (ustr ''do nothing useful'') 0 1 0 0 (ustr ''app/page.tsx'') []),
          actions = synthesize_minimal_action (ustr ''do nothing useful'')\<rparr>"
    by (auto simp: E1_def plan_finish_synth)
  from plan_endpoint_example[OF t2, of "\<lambda>s. Inr untyped_plan" "plan_request ''hi''" world_init]
  have p2: "fst (plan_endpoint E2 (plan_request ''hi'') world_init) =
             Inl \<lparr>status_code = 500, detail = [39] @ ustr ''type'' @ [39]\<rparr>"
    by (auto simp: E2_def plan_finish_untyped)
  have sid: "or_str (plan_session_id (plan_request ''hi'')) (uuid4 E2) = ustr ''s''"
    by (simp add: or_str_def plan_request_def ustr_def)
  from plan_endpoint_nonempty_or_error[where env = E1 and req = "plan_request ''do nothing useful''" and w = world_init]
    plan_endpoint_nonempty_or_error[where env = E2 and req = "plan_request ''hi''" and w = world_init] p1 p2 sid
  show ?thesis unfolding E1_def[symmetric] E2_def[symmetric] by simp
qed

end
